theory Spec2Isabelle
  imports Main "HOL-Library.Sublist" "HOL-Library.AList"
begin

section \<open>Go values as the loader sees them through reflection\<close>

text \<open>
  The loader of \<^verbatim>\<open>aconfig.go\<close> and \<^verbatim>\<open>reflection.go\<close> works on a destination
  struct through \<^verbatim>\<open>reflect\<close>. A Go type is a \<open>gtype\<close>, a Go value of such a type a
  \<open>gval\<close> (it carries what \<^verbatim>\<open>Type()\<close> reports), and a value held in an
  \<^verbatim>\<open>interface{}\<close> that comes from a source (a default tag, a decoded file, the
  environment, a flag) is an \<open>any\<close>.

  \<^item> \<open>TInt b\<close> stands for the kinds \<^verbatim>\<open>Int\<close>, \<^verbatim>\<open>Int8\<close>, \<^verbatim>\<open>Int16\<close>, \<^verbatim>\<open>Int32\<close>
    with \<^verbatim>\<open>Bits() = b\<close>; \<open>TInt64\<close> and \<open>TDuration\<close> both have kind \<^verbatim>\<open>Int64\<close>, the
    second is the type \<^verbatim>\<open>time.Duration\<close>; \<open>TUint b\<close> and \<open>TFloat b\<close> likewise.
  \<^item> \<open>TOther k\<close> is a type of a kind \<open>k\<close> that \<^verbatim>\<open>setFieldData\<close> has no case for
    (array, chan, func, complex).
  \<^item> \<open>TText n t\<close> is a named type \<open>n\<close> with underlying type \<open>t\<close> whose pointer
    implements \<^verbatim>\<open>encoding.TextUnmarshaler\<close>; no other type does.
  \<^item> A map of Go is an association list: its order is the iteration order of one
    run, which Go leaves unspecified.
\<close>

type_synonym StructTag = "(string \<times> string) list"

datatype gtype =
    TBool | TString
  | TInt nat | TInt64 | TDuration
  | TUint nat | TFloat nat
  | TInterface
  | TStruct "member list"
  | TSlice gtype
  | TMap gtype gtype
  | TPtr gtype
  | TOther string
  | TText string gtype
and member = Member (mName: string) (mType: gtype) (mTag: StructTag) (mAnonymous: bool)

datatype any =
    ANil
  | AStr string
  | AScalar string
  | ASeq "any list"
  | AMap "(string \<times> any) list"
  | AMapII "(any \<times> any) list"

text \<open>
  \<open>AScalar s\<close> is a dynamic value that is neither a string nor a container (a bool or
  a number of a decoded file); \<open>s\<close> is what \<^verbatim>\<open>fmt.Sprint\<close> prints for it.
  \<open>AMapII\<close> is a \<^verbatim>\<open>map[interface{}]interface{}\<close>.
\<close>

datatype gval =
    VBool bool | VString string
  | VInt nat int | VInt64 int | VDuration int
  | VUint nat nat | VFloat nat int int
  | VInterface any
  | VStruct "(member \<times> gval) list"
  | VSlice gtype "gval list option"
  | VMap gtype gtype "(gval \<times> gval) list option"
  | VPtr gtype "gval option"
  | VOther string
  | VText string gval

primrec zero :: "gtype \<Rightarrow> gval" and zero_member :: "member \<Rightarrow> member \<times> gval" where
  "zero TBool = VBool False"
| "zero TString = VString []"
| "zero (TInt b) = VInt b 0"
| "zero TInt64 = VInt64 0"
| "zero TDuration = VDuration 0"
| "zero (TUint b) = VUint b 0"
| "zero (TFloat b) = VFloat b 0 0"
| "zero TInterface = VInterface ANil"
| "zero (TStruct ms) = VStruct (map zero_member ms)"
| "zero (TSlice t) = VSlice t None"
| "zero (TMap k v) = VMap k v None"
| "zero (TPtr t) = VPtr t None"
| "zero (TOther k) = VOther k"
| "zero (TText n t) = VText n (zero t)"
| "zero_member (Member n t tg a) = (Member n t tg a, zero t)"

fun typeOf :: "gval \<Rightarrow> gtype" where
  "typeOf (VBool _) = TBool"
| "typeOf (VString _) = TString"
| "typeOf (VInt b _) = TInt b"
| "typeOf (VInt64 _) = TInt64"
| "typeOf (VDuration _) = TDuration"
| "typeOf (VUint b _) = TUint b"
| "typeOf (VFloat b _ _) = TFloat b"
| "typeOf (VInterface _) = TInterface"
| "typeOf (VStruct ms) = TStruct (map fst ms)"
| "typeOf (VSlice t _) = TSlice t"
| "typeOf (VMap k v _) = TMap k v"
| "typeOf (VPtr t _) = TPtr t"
| "typeOf (VOther k) = TOther k"
| "typeOf (VText n v) = TText n (typeOf v)"

datatype kind =
    KBool | KString | KInt | KInt64 | KUint nat | KFloat | KInterface | KStruct | KSlice | KMap
  | KPtr | KOther string

fun Kind :: "gtype \<Rightarrow> kind" where
  "Kind TBool = KBool"
| "Kind TString = KString"
| "Kind (TInt _) = KInt"
| "Kind TInt64 = KInt64"
| "Kind TDuration = KInt64"
| "Kind (TUint b) = KUint b"
| "Kind (TFloat _) = KFloat"
| "Kind TInterface = KInterface"
| "Kind (TStruct _) = KStruct"
| "Kind (TSlice _) = KSlice"
| "Kind (TMap _ _) = KMap"
| "Kind (TPtr _) = KPtr"
| "Kind (TOther k) = KOther k"
| "Kind (TText _ t) = Kind t"

subsection \<open>Struct fields, handles and field descriptors\<close>

text \<open>
  \<open>StructField\<close> is \<^verbatim>\<open>reflect.StructField\<close>; its zero value, which the code passes
  for ad hoc descriptors, has no type. The struct tag is kept parsed, as the list of its
  \<^verbatim>\<open>key:"value"\<close> pairs; \<^verbatim>\<open>Tag.Get\<close> returns the first value of a key, or the
  empty string.
\<close>

record StructField =
  Name :: string
  Type :: "gtype option"
  Tag :: StructTag
  Anonymous :: bool

definition zeroStructField :: StructField where
  "zeroStructField = \<lparr>Name = [], Type = None, Tag = [], Anonymous = False\<rparr>"

definition Get :: "StructTag \<Rightarrow> string \<Rightarrow> string" where
  "Get tg key = (case map_of tg key of Some v \<Rightarrow> v | None \<Rightarrow> [])"

text \<open>
  \<open>Value\<close> is the \<^verbatim>\<open>reflect.Value\<close> handle a descriptor holds. \<^verbatim>\<open>setFieldData\<close>
  replaces the handle of a pointer cell by the handle of its pointee
  (\<^verbatim>\<open>field.value = field.value.Elem()\<close>): \<open>cur\<close> is what the handle points at now and
  \<open>derefs\<close> counts the pointers it has gone through, all of them non-nil by then. The
  storage cell the descriptor was created for holds \<open>cell\<close>. Handles of distinct
  descriptors are taken not to alias.
\<close>

record Value =
  derefs :: nat
  cur :: gval

definition handle :: "gval \<Rightarrow> Value" where
  "handle v = \<lparr>derefs = 0, cur = v\<rparr>"

definition cell :: "Value \<Rightarrow> gval" where
  "cell v = ((\<lambda>x. VPtr (typeOf x) (Some x)) ^^ derefs v) (cur v)"

datatype fieldData = FieldData
  (name: string)
  (parent: "fieldData option")
  (field: StructField)
  (value': Value)
  (isSet: bool)
  (isRequired: bool)
  (tags: "(string \<times> string) list")

definition Tag_of :: "fieldData \<Rightarrow> string \<Rightarrow> string" where
  "Tag_of f tag = (case map_of (tags f) tag of Some t \<Rightarrow> t | None \<Rightarrow> Get (Tag (field f)) tag)"

subsection \<open>Errors\<close>

datatype error =
    Duplicated string
  | DuplicateFlag string
  | UnknownEnv string
  | UnknownFlag string
  | UnknownField string string
  | RequiredNotSet string
  | NoSuchField string
  | CannotSet string
  | KindNotSupported kind
  | IncorrectSliceItem string error
  | IncorrectMapItem string
  | IncorrectMapKey string error
  | IncorrectMapValue any error
  | FormatNotSupported string
  | FileFlagEmpty string
  | NotExist string
  | Wrap string error
  | External string
  | Panic string

text \<open>
  One constructor for each \<^verbatim>\<open>fmt.Errorf\<close> of the two files; \<open>Wrap p e\<close> is
  \<^verbatim>\<open>fmt.Errorf(p + ": %w", e)\<close>, \<open>External\<close> an error of a collaborator (a parser of
  \<^verbatim>\<open>strconv\<close>, a decoder, the flag set, the file system), of which the model keeps
  the message only, and \<open>Panic\<close> a run-time panic.
\<close>

section \<open>Configuration and loader\<close>

record FileDecoder =
  Format :: string
  DecodeFile :: "string \<Rightarrow> string + (string \<times> any) list"

text \<open>
  The loader with the struct parser of \<^verbatim>\<open>Config.NewParser\<close> switched off, which is
  the default; that parser is not part of the two files. \<open>Envs\<close> and \<open>Args\<close> are
  \<open>None\<close> for \<^verbatim>\<open>nil\<close>.
\<close>

record Config =
  SkipDefaults :: bool
  SkipFiles :: bool
  SkipEnv :: bool
  SkipFlags :: bool
  EnvPrefix :: string
  FlagPrefix :: string
  envDelimiter :: string
  FlagDelimiter :: string
  AllFieldRequired :: bool
  AllowDuplicates :: bool
  AllowUnknownFields :: bool
  AllowUnknownEnvs :: bool
  AllowUnknownFlags :: bool
  DontGenerateTags :: bool
  FailOnFileNotFound :: bool
  MergeFiles :: bool
  FileFlag :: string
  Files :: "string list"
  Envs :: "string list option"
  Args :: "string list option"
  FileDecoders :: "(string \<times> FileDecoder) list"
  SliceSeparator :: string

section \<open>Key resolver\<close>

text \<open>
  Modelled from the spec: \<^verbatim>\<open>cut\<close> is called by \<^verbatim>\<open>fullTag\<close> and defined outside the
  two files. The spec has the resolver recognise the markers "exact" and "omit-empty" on
  a declaration; the call \<^verbatim>\<open>before, _, ok := cut(res, sep)\<close> has the shape of
  \<^verbatim>\<open>strings.Cut\<close>: the text around the first occurrence of \<open>sep\<close>, or the whole text
  and \<open>False\<close>.
\<close>

fun cut :: "string \<Rightarrow> string \<Rightarrow> string \<times> string \<times> bool" where
  "cut [] sep = (if sep = [] then ([], [], True) else ([], [], False))"
| "cut (c # s) sep =
     (if prefix sep (c # s) then ([], drop (length sep) (c # s), True)
      else case cut s sep of
             (before, after, True) \<Rightarrow> (c # before, after, True)
           | (_, _, False) \<Rightarrow> (c # s, [], False))"

function fullTag_parents :: "fieldData option \<Rightarrow> string \<Rightarrow> string \<Rightarrow> string \<Rightarrow> string" where
  "fullTag_parents None tag sep res = res"
| "fullTag_parents (Some p) tag sep res =
     fullTag_parents (parent p) tag sep
       (if Tag_of p tag \<noteq> ''-'' then Tag_of p tag @ sep @ res else res)"
  by pat_completeness auto
termination
proof (relation "measure (\<lambda>(p, tag, sep, res). size_option size p)")
  fix p :: fieldData and tag sep res :: string
  show "((parent p, tag, sep, if Tag_of p tag \<noteq> ''-'' then Tag_of p tag @ sep @ res else res),
         (Some p, tag, sep, res)) \<in> measure (\<lambda>(p, tag, sep, res). size_option size p)"
    by (cases p) simp
qed simp

definition fullTag :: "Config \<Rightarrow> string \<Rightarrow> fieldData \<Rightarrow> string \<Rightarrow> string" where
  "fullTag cfg pfx f tag =
     (let sep = ''.'';
          sep = (if tag = ''flag'' then FlagDelimiter cfg else sep);
          sep = (if tag = ''env'' then envDelimiter cfg else sep);
          res = Tag_of f tag
      in if res = ''-'' then []
         else case cut res '',exact'' of
           (before, _, True) \<Rightarrow> before
         | (_, _, False) \<Rightarrow>
             (case cut res '',omitempty'' of
                (before, _, True) \<Rightarrow> before
              | (_, _, False) \<Rightarrow> pfx @ fullTag_parents (parent f) tag sep res))"

function ancestors :: "fieldData option \<Rightarrow> fieldData list" where
  "ancestors None = []"
| "ancestors (Some p) = p # ancestors (parent p)"
  by pat_completeness auto
termination
proof (relation "measure (size_option size)")
  fix p :: fieldData
  show "(parent p, Some p) \<in> measure (size_option size)"
    by (cases p) simp
qed simp

text \<open>
  \<open>ancestors (parent f)\<close> is the parent chain of \<open>f\<close>, the nearest first, as the loop
  \<^verbatim>\<open>for p := f.parent; p != nil; p = p.parent\<close> visits it. \<open>segments\<close> are the key
  segments of a chain, the outermost first, each followed by the delimiter.
\<close>

definition segments :: "fieldData list \<Rightarrow> string \<Rightarrow> string \<Rightarrow> string" where
  "segments ps tag sep =
     concat (map (\<lambda>p. Tag_of p tag @ sep) (rev (filter (\<lambda>p. Tag_of p tag \<noteq> ''-'') ps)))"

definition occurs_before :: "string \<Rightarrow> string \<Rightarrow> nat \<Rightarrow> bool" where
  "occurs_before m s n = (\<exists>u v. s = u @ m @ v \<and> length u < n)"

section \<open>Strings\<close>

text \<open>
  The functions of \<^verbatim>\<open>strings\<close> and \<^verbatim>\<open>path/filepath\<close> the two files call. A
  string is the list of its bytes. The functions that work byte by byte are defined
  here in full. Those that decode characters (\<^verbatim>\<open>strings.Title\<close>,
  \<^verbatim>\<open>strings.ToLower\<close>, \<^verbatim>\<open>strings.TrimSpace\<close> and the test for an exported
  name) are defined here on ASCII text, by \<open>Title_from\<close>, \<open>ToLower_char\<close> and
  \<open>isSpace\<close>; on other text they are parameters of the model, see \<open>externals\<close>
  below.
\<close>

definition ascii :: "string \<Rightarrow> bool" where
  "ascii s = list_all (\<lambda>c. (of_char c :: nat) < 128) s"

definition lower_letters :: string where
  "lower_letters = ''abcdefghijklmnopqrstuvwxyz''"

definition upper_letters :: string where
  "upper_letters = ''ABCDEFGHIJKLMNOPQRSTUVWXYZ''"

definition ToUpper_char :: "char \<Rightarrow> char" where
  "ToUpper_char c = (case map_of (zip lower_letters upper_letters) c of Some u \<Rightarrow> u | None \<Rightarrow> c)"

definition ToLower_char :: "char \<Rightarrow> char" where
  "ToLower_char c = (case map_of (zip upper_letters lower_letters) c of Some u \<Rightarrow> u | None \<Rightarrow> c)"

definition isSeparator :: "char \<Rightarrow> bool" where
  "isSeparator c = (c \<notin> set (lower_letters @ upper_letters @ ''0123456789_'')
     \<and> (of_char c :: nat) \<le> 127)"

fun Title_from :: "char \<Rightarrow> string \<Rightarrow> string" where
  "Title_from prev [] = []"
| "Title_from prev (c # s) = (if isSeparator prev then ToUpper_char c else c) # Title_from c s"

definition HasPrefix :: "string \<Rightarrow> string \<Rightarrow> bool" where
  "HasPrefix s p = prefix p s"

fun Join :: "string list \<Rightarrow> string \<Rightarrow> string" where
  "Join [] sep = []"
| "Join [x] sep = x"
| "Join (x # y # xs) sep = x @ sep @ Join (y # xs) sep"

fun Split_from :: "string \<Rightarrow> string \<Rightarrow> string \<Rightarrow> string list" where
  "Split_from sep acc [] = [rev acc]"
| "Split_from sep acc (c # s) =
     (if sep \<noteq> [] \<and> prefix sep (c # s)
      then rev acc # Split_from sep [] (drop (length sep) (c # s))
      else Split_from sep (c # acc) s)"

definition Split :: "string \<Rightarrow> string \<Rightarrow> string list" where
  "Split s sep = (if sep = [] then map (\<lambda>c. [c]) s else Split_from sep [] s)"

definition SplitN2 :: "string \<Rightarrow> string \<Rightarrow> string list" where
  "SplitN2 s sep = (case cut s sep of (before, after, True) \<Rightarrow> [before, after]
                                     | (_, _, False) \<Rightarrow> [s])"

definition isSpace :: "char \<Rightarrow> bool" where
  "isSpace c = (c \<in> set [CHR '' '', CHR 0x09, CHR 0x0A, CHR 0x0B, CHR 0x0C, CHR 0x0D])"

fun Ext_from :: "string \<Rightarrow> string \<Rightarrow> string" where
  "Ext_from [] acc = []"
| "Ext_from (c # r) acc =
     (if c = CHR ''/'' then [] else if c = CHR ''.'' then c # acc else Ext_from r (c # acc))"

definition Ext :: "string \<Rightarrow> string" where
  "Ext path = Ext_from (rev path) []"

text \<open>
  \<open>SplitN2 s sep\<close> is \<^verbatim>\<open>strings.SplitN(s, sep, 2)\<close> for a non-empty \<open>sep\<close>;
  \<open>Ext_from\<close> scans the path from its end, as \<^verbatim>\<open>filepath.Ext\<close> does where the
  path separator is the slash. \<open>Title_from prev s\<close> is the loop of
  \<^verbatim>\<open>strings.Title\<close> on ASCII text: a letter that follows a separator (any character
  but a letter, a digit or the underscore) is upper-cased, \<open>prev\<close> being the
  character before \<open>s\<close>.
\<close>

section \<open>Collaborators and helpers outside the two files\<close>

text \<open>
  \<open>FlagSet\<close> is what the loader uses of a \<^verbatim>\<open>flag.FlagSet\<close>: the flags defined on it
  (name, default, usage) and whether it has been parsed; what parsing stored is read
  through \<open>getFlags\<close> and \<open>getActualFlag\<close> below.
\<close>

record FlagSet =
  fsName :: string
  formal :: "(string \<times> string \<times> string) list"
  parsed :: bool
  actual :: "(string \<times> string) list"

text \<open>
  The functions the two files call and do not define are parameters of the model, one
  record for all of them: the parsers of \<^verbatim>\<open>strconv\<close> and \<^verbatim>\<open>time\<close> (a message on
  failure), \<^verbatim>\<open>fmt.Sprint\<close> on values that are neither strings nor scalars, the
  \<^verbatim>\<open>UnmarshalText\<close> method of a named type (its name, the current value, the text),
  \<^verbatim>\<open>FlagSet.String\<close> (it panics on a name it cannot define), \<^verbatim>\<open>FlagSet.Parse\<close>,
  \<^verbatim>\<open>fs.Stat\<close> (the error for which \<^verbatim>\<open>os.IsNotExist\<close> holds),
  \<^verbatim>\<open>os.Environ\<close>, \<^verbatim>\<open>os.Args[1:]\<close>, and the helpers of the package that live in
  other files: \<^verbatim>\<open>assertStruct\<close>, \<^verbatim>\<open>isPrimitive\<close>, \<^verbatim>\<open>sliceToString\<close> (these two
  may panic), \<^verbatim>\<open>makeName\<close>, \<^verbatim>\<open>makeTagValue\<close>, \<^verbatim>\<open>splitNameByWords\<close>, \<^verbatim>\<open>find\<close>,
  \<^verbatim>\<open>getEnv\<close>, \<^verbatim>\<open>getFlags\<close>, \<^verbatim>\<open>getActualFlag\<close> (the text of the flag's value, if the
  flag was set) and the built-in \<^verbatim>\<open>jsonDecoder\<close>.

  Five more parameters stand for what the standard library does beyond the part
  defined in this theory: \<open>strTitle\<close>, \<open>strToLower\<close> and \<open>strTrimSpace\<close> are
  \<^verbatim>\<open>strings.Title\<close>, \<^verbatim>\<open>strings.ToLower\<close> and \<^verbatim>\<open>strings.TrimSpace\<close> on text that
  is not all ASCII, \<open>isExported\<close> tells whether a name that starts with a non-ASCII
  character is exported, and \<open>FieldByNameFunc\<close> is the search of \<^verbatim>\<open>reflect\<close> for a
  field promoted from an embedded struct: breadth first, one depth of embedding at a
  time, a name found twice at the shallowest depth where it occurs being found not at
  all. Its result is the index path of the field, \<^verbatim>\<open>StructField.Index\<close>: the index
  of an embedded member, then the path inside that member.
\<close>

record externals =
  ParseBool :: "string \<Rightarrow> string + bool"
  ParseInt :: "string \<Rightarrow> nat \<Rightarrow> nat \<Rightarrow> string + int"
  ParseUint :: "string \<Rightarrow> nat \<Rightarrow> nat \<Rightarrow> string + nat"
  ParseFloat :: "string \<Rightarrow> nat \<Rightarrow> string + int \<times> int"
  ParseDuration :: "string \<Rightarrow> string + int"
  SprintOther :: "any \<Rightarrow> string"
  UnmarshalText :: "string \<Rightarrow> gval \<Rightarrow> string \<Rightarrow> string + gval"
  flagString :: "FlagSet \<Rightarrow> string \<Rightarrow> string \<Rightarrow> string \<Rightarrow> string + FlagSet"
  flagParse :: "FlagSet \<Rightarrow> string list \<Rightarrow> string + FlagSet"
  StatNotExist :: "string \<Rightarrow> string option"
  Environ :: "string list"
  osArgs :: "string list"
  assertStruct :: "gval \<Rightarrow> string option"
  isPrimitive :: "gtype \<Rightarrow> bool"
  sliceToString :: "Config \<Rightarrow> any \<Rightarrow> string + string"
  makeName :: "string \<Rightarrow> fieldData option \<Rightarrow> string"
  makeTagValue :: "Config \<Rightarrow> StructField \<Rightarrow> string \<Rightarrow> string list \<Rightarrow> string"
  splitNameByWords :: "string \<Rightarrow> string list"
  find' :: "(string \<times> any) list \<Rightarrow> string \<Rightarrow> (string \<times> any) list"
  getEnv :: "string list \<Rightarrow> (string \<times> any) list"
  getFlags :: "FlagSet \<Rightarrow> (string \<times> any) list"
  getActualFlag :: "string \<Rightarrow> FlagSet \<Rightarrow> string option"
  jsonDecoder :: FileDecoder
  strTitle :: "string \<Rightarrow> string"
  strToLower :: "string \<Rightarrow> string"
  strTrimSpace :: "string \<Rightarrow> string"
  isExported :: "string \<Rightarrow> bool"
  FieldByNameFunc :: "member list \<Rightarrow> string \<Rightarrow> (nat \<times> nat list) option"

definition Sprint :: "externals \<Rightarrow> any \<Rightarrow> string" where
  "Sprint X v = (case v of AStr s \<Rightarrow> s | AScalar s \<Rightarrow> s | _ \<Rightarrow> SprintOther X v)"

definition Title :: "externals \<Rightarrow> string \<Rightarrow> string" where
  "Title X s = (if ascii s then Title_from (CHR '' '') s else strTitle X s)"

definition ToLower :: "externals \<Rightarrow> string \<Rightarrow> string" where
  "ToLower X s = (if ascii s then map ToLower_char s else strToLower X s)"

definition TrimSpace :: "externals \<Rightarrow> string \<Rightarrow> string" where
  "TrimSpace X s =
     (if ascii s then rev (dropWhile isSpace (rev (dropWhile isSpace s))) else strTrimSpace X s)"

definition exported :: "externals \<Rightarrow> string \<Rightarrow> bool" where
  "exported X n =
     (case n of
        [] \<Rightarrow> False
      | c # _ \<Rightarrow> if (of_char c :: nat) < 128 then c \<in> set upper_letters else isExported X n)"

text \<open>
  \<open>exported\<close> is Go's rule for an exported identifier: its first character is an
  upper-case letter.
\<close>

record Loader =
  config :: Config
  dst :: gval
  fields' :: "fieldData list"
  flagSet :: FlagSet
  errInit :: "error option"

section \<open>Reflection helpers\<close>

fun Elem :: "gtype \<Rightarrow> error + gtype" where
  "Elem (TPtr t) = Inr t"
| "Elem (TSlice t) = Inr t"
| "Elem (TMap k v) = Inr v"
| "Elem (TText n t) = Elem t"
| "Elem t = Inl (Panic ''reflect: Elem of invalid type'')"

fun Key :: "gtype \<Rightarrow> error + gtype" where
  "Key (TMap k v) = Inr k"
| "Key (TText n t) = Key t"
| "Key t = Inl (Panic ''reflect: Key of non-map type'')"

fun Bits :: "gtype \<Rightarrow> nat" where
  "Bits (TInt b) = b"
| "Bits TInt64 = 64"
| "Bits TDuration = 64"
| "Bits (TUint b) = b"
| "Bits (TFloat b) = b"
| "Bits (TText n t) = Bits t"
| "Bits t = 0"

definition StructField_of :: "member \<Rightarrow> StructField" where
  "StructField_of m =
     \<lparr>Name = mName m, Type = Some (mType m), Tag = mTag m, Anonymous = mAnonymous m\<rparr>"

text \<open>
  \<^verbatim>\<open>Type.FieldByName\<close> of \<^verbatim>\<open>reflect\<close>: a name that is not empty is first looked
  up among the members the struct declares itself, the first one of that name being
  the answer; failing that, and if a member is embedded, the search goes through the
  embedded structs (\<open>FieldByNameFunc\<close>). The answer is the index path of the field.
  The comparison of names is that of Go strings: exact.
\<close>

fun indexOfName :: "member list \<Rightarrow> string \<Rightarrow> nat option" where
  "indexOfName [] n = None"
| "indexOfName (m # ms) n = (if mName m = n then Some 0 else map_option Suc (indexOfName ms n))"

definition FieldByName :: "externals \<Rightarrow> member list \<Rightarrow> string \<Rightarrow> (nat \<times> nat list) option" where
  "FieldByName X ms n =
     (if n = [] then None
      else case indexOfName ms n of
             Some i \<Rightarrow> Some (i, [])
           | None \<Rightarrow> if list_ex mAnonymous ms then FieldByNameFunc X ms n else None)"

text \<open>
  \<^verbatim>\<open>Value.FieldByIndex\<close>: the member at an index path. Past the first index the
  value is an embedded member, a struct or a pointer to one; a nil pointer there is a
  panic. \<open>structOf\<close> are the members of a value of a struct type, named or not.
  \<open>SetByIndex\<close> writes the cell \<open>FieldByIndex\<close> returns.
\<close>

fun structOf :: "gval \<Rightarrow> (member \<times> gval) list option" where
  "structOf (VStruct ms) = Some ms"
| "structOf (VText n u) = structOf u"
| "structOf v = None"

definition embedded :: "gval \<Rightarrow> error + (member \<times> gval) list" where
  "embedded v =
     (case v of
        VPtr t p \<Rightarrow>
          (if Kind t = KStruct
           then (case p of
                   None \<Rightarrow> Inl (Panic ''reflect: indirection through nil pointer to embedded struct'')
                 | Some u \<Rightarrow>
                     (case structOf u of
                        Some ms \<Rightarrow> Inr ms
                      | None \<Rightarrow> Inl (Panic ''reflect: call of reflect.Value.Field on non-struct Value'')))
           else Inl (Panic ''reflect: call of reflect.Value.Field on ptr Value''))
      | _ \<Rightarrow>
          (case structOf v of
             Some ms \<Rightarrow> Inr ms
           | None \<Rightarrow> Inl (Panic ''reflect: call of reflect.Value.Field on non-struct Value'')))"

fun FieldByIndex :: "(member \<times> gval) list \<Rightarrow> nat \<Rightarrow> nat list \<Rightarrow> error + member \<times> gval" where
  "FieldByIndex ms i [] =
     (if i < length ms then Inr (ms ! i) else Inl (Panic ''reflect: Field index out of range''))"
| "FieldByIndex ms i (j # r) =
     (if i < length ms
      then (case embedded (snd (ms ! i)) of
              Inl e \<Rightarrow> Inl e
            | Inr ms' \<Rightarrow> FieldByIndex ms' j r)
      else Inl (Panic ''reflect: Field index out of range''))"

fun putStruct :: "gval \<Rightarrow> (member \<times> gval) list \<Rightarrow> gval" where
  "putStruct (VStruct ms) ms' = VStruct ms'"
| "putStruct (VText n u) ms' = VText n (putStruct u ms')"
| "putStruct (VPtr t (Some u)) ms' = VPtr t (Some (putStruct u ms'))"
| "putStruct v ms' = v"

fun SetByIndex :: "(member \<times> gval) list \<Rightarrow> nat \<Rightarrow> nat list \<Rightarrow> gval \<Rightarrow> (member \<times> gval) list" where
  "SetByIndex ms i [] x = ms[i := (fst (ms ! i), x)]"
| "SetByIndex ms i (j # r) x =
     (case embedded (snd (ms ! i)) of
        Inl e \<Rightarrow> ms
      | Inr ms' \<Rightarrow> ms[i := (fst (ms ! i), putStruct (snd (ms ! i)) (SetByIndex ms' j r x))])"

text \<open>
  A promoted field is reached through embedded members only, and \<^verbatim>\<open>Value.Field\<close>
  does not pass on the read-only mark of an unexported embedded member: the cell
  \<open>FieldByIndex\<close> returns can be set if and only if the member itself is exported.
  \<open>Set\<close> writes through a handle.
\<close>

definition Set :: "fieldData \<Rightarrow> gval \<Rightarrow> fieldData" where
  "Set f x = FieldData (name f) (parent f) (field f) ((value' f)\<lparr>cur := x\<rparr>)
     (isSet f) (isRequired f) (tags f)"

definition setValue :: "fieldData \<Rightarrow> Value \<Rightarrow> fieldData" where
  "setValue f v = FieldData (name f) (parent f) (field f) v (isSet f) (isRequired f) (tags f)"

definition setType :: "fieldData \<Rightarrow> gtype \<Rightarrow> fieldData" where
  "setType f t = FieldData (name f) (parent f) ((field f)\<lparr>Type := Some t\<rparr>) (value' f)
     (isSet f) (isRequired f) (tags f)"

definition setIsSet :: "fieldData \<Rightarrow> bool \<Rightarrow> fieldData" where
  "setIsSet f b = FieldData (name f) (parent f) (field f) (value' f) b (isRequired f) (tags f)"

subsection \<open>Sizes of types and values, for the termination proofs\<close>

primrec tsz :: "gtype \<Rightarrow> nat" and tsz_member :: "member \<Rightarrow> nat" where
  "tsz TBool = 1"
| "tsz TString = 1"
| "tsz (TInt b) = 1"
| "tsz TInt64 = 1"
| "tsz TDuration = 1"
| "tsz (TUint b) = 1"
| "tsz (TFloat b) = 1"
| "tsz TInterface = 1"
| "tsz (TStruct ms) = Suc (sum_list (map tsz_member ms))"
| "tsz (TSlice t) = Suc (tsz t)"
| "tsz (TMap k v) = Suc (tsz k + tsz v)"
| "tsz (TPtr t) = Suc (tsz t)"
| "tsz (TOther k) = 1"
| "tsz (TText n t) = Suc (tsz t)"
| "tsz_member (Member n t tg a) = Suc (tsz t)"

fun vsz :: "gval \<Rightarrow> nat" where
  "vsz (VStruct ms) = Suc (sum_list (map (\<lambda>(m, v). max (tsz_member m) (Suc (vsz v))) ms))"
| "vsz (VSlice t xs) = Suc (tsz t)"
| "vsz (VMap k v xs) = Suc (tsz k + tsz v)"
| "vsz (VPtr t x) = Suc (max (tsz t) (case x of None \<Rightarrow> 0 | Some y \<Rightarrow> vsz y))"
| "vsz (VText n v) = Suc (vsz v)"
| "vsz v = 1"

definition msz :: "(member \<times> gval) list \<Rightarrow> nat" where
  "msz ms = sum_list (map (\<lambda>(m, v). max (tsz_member m) (Suc (vsz v))) ms)"


text \<open>
  The sizes bound one another: a zero value is no larger than its type, a value no
  smaller than its type. They are what the loops below decrease.
\<close>

lemma vsz_zero_le: "vsz (zero t) \<le> tsz t"
  and vsz_zero_member_le: "(case zero_member m of (m', v) \<Rightarrow> max (tsz_member m') (Suc (vsz v))) \<le> tsz_member m"
proof (induction t and m)
  case (TStruct ms)
  have "sum_list (map ((\<lambda>(m, v). max (tsz_member m) (Suc (vsz v))) \<circ> zero_member) ms)
          \<le> sum_list (map tsz_member ms)"
    using TStruct by (intro sum_list_mono) auto
  then show ?case by (simp add: comp_def)
qed (auto)

lemma tsz_pos: "0 < tsz t"
  by (cases t) auto

lemma tsz_typeOf_le: "tsz (typeOf v) \<le> vsz v"
proof (induction v rule: vsz.induct)
  case (1 ms)
  have "sum_list (map (tsz_member \<circ> fst) ms) \<le> sum_list (map (\<lambda>(m, v). max (tsz_member m) (Suc (vsz v))) ms)"
    by (intro sum_list_mono) auto
  then show ?case by (simp add: comp_def)
next
  case (5 n v)
  then show ?case by simp
qed (auto)

function unwrap :: "Value \<Rightarrow> Value" where
  "unwrap v =
     (case cur v of
        VPtr t x \<Rightarrow> unwrap \<lparr>derefs = Suc (derefs v), cur = (case x of None \<Rightarrow> zero t | Some y \<Rightarrow> y)\<rparr>
      | _ \<Rightarrow> v)"
  by pat_completeness auto
termination
proof (relation "measure (\<lambda>v. vsz (cur v))")
  fix v :: Value and t x
  assume "cur v = VPtr t x"
  then show "(\<lparr>derefs = Suc (derefs v), cur = case x of None \<Rightarrow> zero t | Some y \<Rightarrow> y\<rparr>, v)
       \<in> measure (\<lambda>v. vsz (cur v))"
    using vsz_zero_le[of t] by (cases x) (auto simp: less_Suc_eq_le)
qed simp

subsection \<open>Field descriptors and the schema walk\<close>

text \<open>
  \<open>unwrap\<close> is the loop \<^verbatim>\<open>for field.value.Type().Kind() == reflect.Ptr\<close> of
  \<^verbatim>\<open>setFieldData\<close>: a nil pointer is set to a new zero value and the handle moves to
  the pointee. The underlying type of a \<open>TText\<close> type is taken not to be a pointer or
  a struct.
\<close>

definition tagsForField :: "externals \<Rightarrow> Config \<Rightarrow> StructField \<Rightarrow> (string \<times> string) list" where
  "tagsForField X cfg fld =
     (let words = splitNameByWords X (Name fld)
      in map (\<lambda>(e, dec). (Format dec, makeTagValue X cfg fld (Format dec) words)) (FileDecoders cfg)
         @ [(''default'', Get (Tag fld) ''default''),
            (''usage'', Get (Tag fld) ''usage''),
            (''env'', makeTagValue X cfg fld ''env'' words),
            (''flag'', makeTagValue X cfg fld ''flag'' words)])"

definition newFieldData ::
  "externals \<Rightarrow> Config \<Rightarrow> StructField \<Rightarrow> Value \<Rightarrow> fieldData option \<Rightarrow> error + fieldData" where
  "newFieldData X cfg fld v p =
     (let requiredTag = Get (Tag fld) ''required''
      in if requiredTag \<noteq> [] \<and> requiredTag \<noteq> ''true''
         then Inl (Panic ''aconfig: incorrect value for 'required' tag'')
         else Inr (FieldData (makeName X (Name fld) p) p fld v False (requiredTag = ''true'')
                     (tagsForField X cfg fld)))"

definition newSimpleFieldData :: "externals \<Rightarrow> Config \<Rightarrow> Value \<Rightarrow> error + fieldData" where
  "newSimpleFieldData X cfg v = newFieldData X cfg zeroStructField v None"

text \<open>
  \<open>getFieldsHelper\<close> walks the members of a struct value in declaration order and
  returns the leaf descriptors together with the members as the walk leaves them (a
  pointer to a struct is overwritten by a pointer to a new struct). \<open>addr\<close> says
  whether the struct is addressable; a member can be set when the struct is addressable
  and the member exported. The descriptor of a struct member is kept as the parent of
  its leaves only and its handle is never read; for a pointer it views the cell after
  \<^verbatim>\<open>value.Set(reflect.New(field.Type.Elem()))\<close>.
\<close>

function getFieldsHelper ::
  "externals \<Rightarrow> Config \<Rightarrow> bool \<Rightarrow> (member \<times> gval) list \<Rightarrow> fieldData option
   \<Rightarrow> error + fieldData list \<times> (member \<times> gval) list" where
  "getFieldsHelper X cfg addr [] p = Inr ([], [])"
| "getFieldsHelper X cfg addr ((m, v) # rest) p =
     (if \<not> (addr \<and> exported X (mName m))
      then (case getFieldsHelper X cfg addr rest p of
              Inl e \<Rightarrow> Inl e
            | Inr (fs, rest') \<Rightarrow> Inr (fs, (m, v) # rest'))
      else case newFieldData X cfg (StructField_of m) (handle v) p of
        Inl e \<Rightarrow> Inl e
      | Inr fd \<Rightarrow>
          (let kind = Kind (mType m);
               kind = (case mType m of TPtr t \<Rightarrow> Kind t | _ \<Rightarrow> kind)
           in if kind = KStruct
              then
                (let fd1 = (case mType m of
                              TPtr t \<Rightarrow> setValue fd (handle (VPtr t (Some (zero t))))
                            | _ \<Rightarrow> fd);
                     subFieldParent = (if mAnonymous m then p else Some fd1);
                     v1 = (case mType m of TPtr t \<Rightarrow> zero t | _ \<Rightarrow> v)
                 in case v1 of
                      VStruct ms1 \<Rightarrow>
                        (case getFieldsHelper X cfg True ms1 subFieldParent of
                           Inl e \<Rightarrow> Inl e
                         | Inr (sub, ms1') \<Rightarrow>
                             (case getFieldsHelper X cfg addr rest p of
                                Inl e \<Rightarrow> Inl e
                              | Inr (fs, rest') \<Rightarrow>
                                  Inr (sub @ fs,
                                       (m, case mType m of
                                             TPtr t \<Rightarrow> VPtr t (Some (VStruct ms1'))
                                           | _ \<Rightarrow> VStruct ms1') # rest')))
                    | _ \<Rightarrow> Inl (Panic ''reflect: call of reflect.Value.NumField on non-struct Value''))
              else (case getFieldsHelper X cfg addr rest p of
                      Inl e \<Rightarrow> Inl e
                    | Inr (fs, rest') \<Rightarrow> Inr (fd # fs, (m, v) # rest'))))"
  by pat_completeness auto
termination
proof (relation "measure (\<lambda>(X, cfg, addr, ms, p). msz ms)", goal_cases)
  case 1
  show ?case by simp
next
  case (2 X cfg addr m v rest p)
  show ?case by (simp add: msz_def)
next
  case (3 X cfg addr m v rest p fd kind kind' fd1 sub v1 ms1)
  have "msz ms1 < max (tsz_member m) (Suc (vsz v))"
  proof (cases "mType m")
    case (TPtr t)
    then have "zero t = VStruct ms1" using 3 by simp
    then have "Suc (msz ms1) = vsz (zero t)" by (simp add: msz_def)
    also have "\<dots> \<le> tsz t" by (rule vsz_zero_le)
    finally have "msz ms1 < tsz_member m" using TPtr by (cases m) simp
    then show ?thesis by simp
  qed (use 3 in \<open>auto simp: msz_def\<close>)
  then show ?case by (simp add: msz_def)
next
  case 4
  then show ?case by (simp add: msz_def)
next
  case 5
  then show ?case by (simp add: msz_def)
qed

section \<open>Value coercion engine\<close>

definition setBool :: "externals \<Rightarrow> fieldData \<Rightarrow> string \<Rightarrow> error + fieldData" where
  "setBool X f s =
     (case ParseBool X s of
        Inl msg \<Rightarrow> Inl (External msg)
      | Inr b \<Rightarrow> (case cur (value' f) of
                    VBool _ \<Rightarrow> Inr (Set f (VBool b))
                  | _ \<Rightarrow> Inl (Panic ''reflect: call of reflect.Value.SetBool on non-bool Value'')))"

definition setInt :: "externals \<Rightarrow> fieldData \<Rightarrow> string \<Rightarrow> error + fieldData" where
  "setInt X f s =
     (case ParseInt X s 0 (Bits (typeOf (cur (value' f)))) of
        Inl msg \<Rightarrow> Inl (External msg)
      | Inr i \<Rightarrow> (case cur (value' f) of
                    VInt b _ \<Rightarrow> Inr (Set f (VInt b i))
                  | VInt64 _ \<Rightarrow> Inr (Set f (VInt64 i))
                  | VDuration _ \<Rightarrow> Inr (Set f (VDuration i))
                  | _ \<Rightarrow> Inl (Panic ''reflect: call of reflect.Value.SetInt on non-int Value'')))"

definition setInt64 :: "externals \<Rightarrow> fieldData \<Rightarrow> string \<Rightarrow> error + fieldData" where
  "setInt64 X f s =
     (if Type (field f) = Some TDuration
      then (case ParseDuration X s of
              Inl msg \<Rightarrow> Inl (External msg)
            | Inr d \<Rightarrow> (case cur (value' f) of
                          VDuration _ \<Rightarrow> Inr (Set f (VDuration d))
                        | _ \<Rightarrow> Inl (Panic ''reflect.Set: value is not assignable'')))
      else setInt X f s)"

definition setUint :: "externals \<Rightarrow> fieldData \<Rightarrow> string \<Rightarrow> error + fieldData" where
  "setUint X f s =
     (case ParseUint X s 0 (Bits (typeOf (cur (value' f)))) of
        Inl msg \<Rightarrow> Inl (External msg)
      | Inr n \<Rightarrow> (case cur (value' f) of
                    VUint b _ \<Rightarrow> Inr (Set f (VUint b n))
                  | _ \<Rightarrow> Inl (Panic ''reflect: call of reflect.Value.SetUint on non-uint Value'')))"

definition setFloat :: "externals \<Rightarrow> fieldData \<Rightarrow> string \<Rightarrow> error + fieldData" where
  "setFloat X f s =
     (case ParseFloat X s (Bits (typeOf (cur (value' f)))) of
        Inl msg \<Rightarrow> Inl (External msg)
      | Inr (m, e) \<Rightarrow> (case cur (value' f) of
                    VFloat b _ _ \<Rightarrow> Inr (Set f (VFloat b m e))
                  | _ \<Rightarrow> Inl (Panic ''reflect: call of reflect.Value.SetFloat on non-float Value'')))"

definition setString :: "fieldData \<Rightarrow> string \<Rightarrow> error + fieldData" where
  "setString f s =
     (case cur (value' f) of
        VString _ \<Rightarrow> Inr (Set f (VString s))
      | _ \<Rightarrow> Inl (Panic ''reflect: call of reflect.Value.SetString on non-string Value''))"

definition setInterface :: "fieldData \<Rightarrow> any \<Rightarrow> error + fieldData" where
  "setInterface f v =
     (case cur (value' f) of
        VInterface _ \<Rightarrow> Inr (Set f (VInterface v))
      | _ \<Rightarrow> Inl (Panic ''reflect.Set: value is not assignable''))"

fun mii_keys :: "(any \<times> any) list \<Rightarrow> error + (string \<times> any) list" where
  "mii_keys [] = Inr []"
| "mii_keys ((k, v) # r) =
     (case k of
        AStr s \<Rightarrow> (case mii_keys r of Inl e \<Rightarrow> Inl e | Inr m \<Rightarrow> Inr ((s, v) # m))
      | _ \<Rightarrow> Inl (Panic ''interface conversion: interface {} is not string''))"

definition mii :: "any \<Rightarrow> error + (string \<times> any) list" where
  "mii m = (case m of
              AMap es \<Rightarrow> Inr es
            | AMapII es \<Rightarrow> mii_keys es
            | _ \<Rightarrow> Inl (Panic ''mii: not a map''))"

definition SetMapIndex ::
  "gtype \<Rightarrow> gtype \<Rightarrow> (gval \<times> gval) list \<Rightarrow> Value \<Rightarrow> Value \<Rightarrow> error + (gval \<times> gval) list" where
  "SetMapIndex K V m k v =
     (if typeOf (cur k) = K \<and> typeOf (cur v) = V
      then Inr (AList.update (cur k) (cur v) m)
      else Inl (Panic ''reflect.Value.SetMapIndex: value is not assignable''))"

text \<open>
  \<open>textOf\<close> is the assertion \<^verbatim>\<open>pv.(encoding.TextUnmarshaler)\<close>, \<open>mapOf\<close> the
  assertion \<^verbatim>\<open>value.(map[string]interface{})\<close>, \<open>seqOf\<close> the test
  \<^verbatim>\<open>in.Kind() != reflect.Slice\<close>; every handle of the loader is addressable.
\<close>

fun textOf :: "gval \<Rightarrow> (string \<times> gval) option" where
  "textOf (VText n u) = Some (n, u)"
| "textOf v = None"

fun seqOf :: "any \<Rightarrow> any list option" where
  "seqOf (ASeq xs) = Some xs"
| "seqOf v = None"

fun mapOf :: "any \<Rightarrow> (string \<times> any) list option" where
  "mapOf (AMap es) = Some es"
| "mapOf v = None"

fun membersOf :: "gval \<Rightarrow> (member \<times> gval) list option" where
  "membersOf (VStruct ms) = Some ms"
| "membersOf v = None"

fun asz :: "any \<Rightarrow> nat" where
  "asz (ASeq xs) = Suc (sum_list (map (\<lambda>x. Suc (asz x)) xs))"
| "asz (AMap es) = Suc (sum_list (map (\<lambda>(k, v). Suc (asz v)) es))"
| "asz (AMapII es) = Suc (sum_list (map (\<lambda>(k, v). Suc (asz k + asz v)) es))"
| "asz v = 0"

definition esz :: "(string \<times> any) list \<Rightarrow> nat" where
  "esz es = sum_list (map (\<lambda>(k, v). Suc (asz v)) es)"

definition fsz :: "fieldData \<Rightarrow> nat" where
  "fsz f = max (case Type (field f) of None \<Rightarrow> 0 | Some t \<Rightarrow> tsz t) (vsz (cur (value' f)))"

lemma vsz_unwrap_le: "vsz (cur (unwrap v)) \<le> vsz (cur v)"
proof (induction v rule: unwrap.induct)
  case (1 v)
  show ?case
  proof (cases "cur v")
    case (VPtr t x)
    let ?w = "\<lparr>derefs = Suc (derefs v), cur = (case x of None \<Rightarrow> zero t | Some y \<Rightarrow> y)\<rparr>"
    have "vsz (cur (unwrap ?w)) \<le> vsz (cur ?w)" using 1 VPtr by simp
    also have "\<dots> \<le> vsz (cur v)"
      using VPtr vsz_zero_le[of t] by (cases x) auto
    finally show ?thesis using VPtr by (subst unwrap.simps) simp
  qed (subst unwrap.simps, simp)+
qed

lemma fsz_unwrap_le: "fsz (setValue f (unwrap (value' f))) \<le> fsz f"
  using vsz_unwrap_le[of "value' f"] by (auto simp: fsz_def setValue_def)

lemma Elem_smaller: "Elem T = Inr E \<Longrightarrow> tsz E < tsz T"
  by (induction T rule: Elem.induct) auto

lemma Key_smaller: "Key T = Inr K \<Longrightarrow> tsz K < tsz T"
  by (induction T rule: Key.induct) auto

lemma newFieldData_Inr:
  "newFieldData X cfg fld v p = Inr fd \<Longrightarrow> value' fd = v \<and> field fd = fld \<and> parent fd = p"
  by (auto simp: newFieldData_def Let_def split: if_splits)

lemma mii_keys_esz: "mii_keys es = Inr m \<Longrightarrow> esz m \<le> sum_list (map (\<lambda>(k, v). Suc (asz k + asz v)) es)"
  by (induction es arbitrary: m rule: mii_keys.induct)
     (auto simp: esz_def split: any.splits sum.splits)

lemma mii_esz: "mii v = Inr m \<Longrightarrow> esz m < asz v"
  using mii_keys_esz by (cases v) (auto simp: mii_def esz_def less_Suc_eq_le)

lemma seqOf_asz: "seqOf v = Some xs \<Longrightarrow> sum_list (map (\<lambda>x. Suc (asz x)) xs) < asz v"
  by (cases v) auto

lemma mapOf_asz: "mapOf v = Some es \<Longrightarrow> esz es < asz v"
  by (cases v) (auto simp: esz_def)

lemma fsz_fresh:
  "newFieldData X cfg zeroStructField (handle (zero E)) p = Inr fd \<Longrightarrow> fsz (setType fd E) = tsz E"
  using vsz_zero_le[of E]
  by (auto dest!: newFieldData_Inr simp: fsz_def setType_def handle_def)

lemma fsz_fresh_simple:
  "newSimpleFieldData X cfg (handle (zero K)) = Inr fd \<Longrightarrow> fsz fd \<le> tsz K"
  using vsz_zero_le[of K]
  by (auto dest!: newFieldData_Inr simp: fsz_def newSimpleFieldData_def handle_def zeroStructField_def)

lemma fsz_Type: "Type (field f) = Some T \<Longrightarrow> tsz T \<le> fsz f"
  by (simp add: fsz_def)

lemma fsz_typeOf: "tsz (typeOf (cur (value' f))) \<le> fsz f"
  using tsz_typeOf_le[of "cur (value' f)"] by (simp add: fsz_def)

lemma esz_simps: "esz [] = 0" "esz ((k, v) # es) = Suc (asz v) + esz es"
  by (simp_all add: esz_def)

lemma term_unwrap: "3 * fsz (setValue f (unwrap (value' f))) < Suc (3 * fsz f)"
  using fsz_unwrap_le[of f] by simp

lemma term_slice:
  "Type (field f) = Some T \<Longrightarrow> Elem T = Inr E \<Longrightarrow> Suc (Suc (3 * tsz E)) < 3 * fsz f"
  using Elem_smaller[of T E] fsz_Type[of f T] by simp

lemma term_map:
  "Type (field f) = Some T \<Longrightarrow> Key T = Inr K \<Longrightarrow> Elem (typeOf (cur (value' f))) = Inr V
   \<Longrightarrow> Suc (Suc (3 * max (tsz K) (tsz V))) < 3 * fsz f"
  using Key_smaller[of T K] fsz_Type[of f T] Elem_smaller[of "typeOf (cur (value' f))" V]
    fsz_typeOf[of f]
  by (simp add: max_def)

lemma term_key:
  "newSimpleFieldData X cfg (handle (zero K)) = Inr fd
   \<Longrightarrow> 3 * fsz fd < Suc (3 * max (tsz K) (tsz V))"
  using fsz_fresh_simple[of X cfg K fd] by (simp add: max_def)

text \<open>
  \<^verbatim>\<open>setFieldData\<close> with \<^verbatim>\<open>setSlice\<close>, \<^verbatim>\<open>setMap\<close> and \<^verbatim>\<open>m2s\<close>. The loops
  over the items of a slice or a map are functions of their own: \<open>setSlice_items\<close>
  and \<open>setMap_items\<close> for the loops of \<^verbatim>\<open>setSlice\<close> and \<^verbatim>\<open>setMap\<close>,
  \<open>slice_items\<close> and \<open>map_entries\<close> for the two loops in \<^verbatim>\<open>setFieldData\<close>. A
  function returns the descriptor (or the cells) it has written, or the error; what an
  aborted call has written by then is not kept. In the map loops \<open>K\<close> and \<open>Vm\<close> are
  the key and element type of \<^verbatim>\<open>field.field.Type\<close> and \<open>V\<close> is the element type of
  \<^verbatim>\<open>field.value.Type()\<close>.
\<close>

function setFieldData :: "externals \<Rightarrow> Config \<Rightarrow> fieldData \<Rightarrow> any \<Rightarrow> error + fieldData"
  and setSlice :: "externals \<Rightarrow> Config \<Rightarrow> fieldData \<Rightarrow> string \<Rightarrow> error + fieldData"
  and setSlice_items :: "externals \<Rightarrow> Config \<Rightarrow> gtype \<Rightarrow> string list \<Rightarrow> error + gval list"
  and slice_items :: "externals \<Rightarrow> Config \<Rightarrow> gtype \<Rightarrow> any list \<Rightarrow> error + gval list"
  and setMap :: "externals \<Rightarrow> Config \<Rightarrow> fieldData \<Rightarrow> string \<Rightarrow> error + fieldData"
  and setMap_items ::
    "externals \<Rightarrow> Config \<Rightarrow> fieldData \<Rightarrow> gtype \<Rightarrow> gtype \<Rightarrow> gtype \<Rightarrow> string list
     \<Rightarrow> (gval \<times> gval) list \<Rightarrow> error + (gval \<times> gval) list"
  and map_entries ::
    "externals \<Rightarrow> Config \<Rightarrow> fieldData \<Rightarrow> gtype \<Rightarrow> gtype \<Rightarrow> gtype \<Rightarrow> (string \<times> any) list
     \<Rightarrow> (gval \<times> gval) list \<Rightarrow> error + (gval \<times> gval) list"
  and m2s ::
    "externals \<Rightarrow> Config \<Rightarrow> (string \<times> any) list \<Rightarrow> (member \<times> gval) list
     \<Rightarrow> error + (member \<times> gval) list"
where
  "setFieldData X cfg f0 v =
     (if v = ANil then Inr f0
      else
       (let f = setValue f0 (unwrap (value' f0))
        in if v = AStr [] then Inr f
           else case textOf (cur (value' f)) of
             Some (n, u) \<Rightarrow>
               (case UnmarshalText X n u (Sprint X v) of
                  Inl msg \<Rightarrow> Inl (External msg)
                | Inr u' \<Rightarrow> Inr (Set f (VText n u')))
           | None \<Rightarrow>
               (case Kind (typeOf (cur (value' f))) of
                  KBool \<Rightarrow> setBool X f (Sprint X v)
                | KString \<Rightarrow> setString f (Sprint X v)
                | KInt \<Rightarrow> setInt X f (Sprint X v)
                | KInt64 \<Rightarrow> setInt64 X f (Sprint X v)
                | KUint b \<Rightarrow> setUint X f (Sprint X v)
                | KFloat \<Rightarrow> setFloat X f (Sprint X v)
                | KInterface \<Rightarrow> setInterface f v
                | KStruct \<Rightarrow>
                    (case newFieldData X cfg zeroStructField (value' f) None of
                       Inl e \<Rightarrow> Inl e
                     | Inr fd \<Rightarrow>
                         (case mii v of
                            Inl e \<Rightarrow> Inl e
                          | Inr m \<Rightarrow>
                              (case membersOf (cur (value' fd)) of
                                 None \<Rightarrow> Inl (Panic ''reflect: call of reflect.Value.FieldByName on non-struct Value'')
                               | Some ms \<Rightarrow>
                                   (case m2s X cfg m ms of
                                      Inl e \<Rightarrow> Inl e
                                    | Inr ms' \<Rightarrow> Inr (Set f (VStruct ms'))))))
                | KSlice \<Rightarrow>
                    (case Type (field f) of
                       None \<Rightarrow> Inl (Panic ''invalid memory address or nil pointer dereference'')
                     | Some T \<Rightarrow>
                         (case Elem T of
                            Inl e \<Rightarrow> Inl e
                          | Inr E \<Rightarrow>
                              if isPrimitive X E
                              then (case sliceToString X cfg v of
                                      Inl msg \<Rightarrow> Inl (Panic msg)
                                    | Inr s \<Rightarrow> setSlice X cfg f s)
                              else (case seqOf v of
                                      None \<Rightarrow> Inl (Panic ''value is not a slice'')
                                    | Some xs \<Rightarrow>
                                        if Kind T \<noteq> KSlice
                                        then Inl (Panic ''reflect.MakeSlice of non-slice type'')
                                        else if T \<noteq> typeOf (cur (value' f))
                                        then Inl (Panic ''reflect.Set: value is not assignable'')
                                        else (case slice_items X cfg E xs of
                                                Inl e \<Rightarrow> Inl e
                                              | Inr elems \<Rightarrow> Inr (Set f (VSlice E (Some elems)))))))
                | KMap \<Rightarrow>
                    (case mapOf v of
                       None \<Rightarrow> setMap X cfg f (Sprint X v)
                     | Some es \<Rightarrow>
                         (case Type (field f) of
                            None \<Rightarrow> Inl (Panic ''invalid memory address or nil pointer dereference'')
                          | Some T \<Rightarrow>
                              if Kind T \<noteq> KMap
                              then Inl (Panic ''reflect.MakeMapWithSize of non-map type'')
                              else (case Key T of
                                Inl e \<Rightarrow> Inl e
                              | Inr K \<Rightarrow>
                                  (case Elem T of
                                     Inl e \<Rightarrow> Inl e
                                   | Inr Vm \<Rightarrow>
                                       (case Elem (typeOf (cur (value' f))) of
                                          Inl e \<Rightarrow> Inl e
                                        | Inr V \<Rightarrow>
                                            (case map_entries X cfg f K V Vm es [] of
                                               Inl e \<Rightarrow> Inl e
                                             | Inr kvs \<Rightarrow>
                                                 if T = typeOf (cur (value' f))
                                                 then Inr (Set f (VMap K Vm (Some kvs)))
                                                 else Inl (Panic ''reflect.Set: value is not assignable'')))))))
                | k \<Rightarrow> Inl (KindNotSupported k))))"
| "setSlice X cfg f s =
     (case Type (field f) of
        None \<Rightarrow> Inl (Panic ''invalid memory address or nil pointer dereference'')
      | Some T \<Rightarrow>
          (case Elem T of
             Inl e \<Rightarrow> Inl e
           | Inr E \<Rightarrow>
               if Kind E = KUint 8
               then (if typeOf (cur (value' f)) = TSlice (TUint 8)
                     then Inr (Set f (VSlice (TUint 8) (Some (map (\<lambda>c. VUint 8 (of_char c)) s))))
                     else Inl (Panic ''reflect.Set: value is not assignable''))
               else
                 (let vals = Split s (SliceSeparator cfg)
                  in if Kind T \<noteq> KSlice
                     then Inl (Panic ''reflect.MakeSlice of non-slice type'')
                     else (case setSlice_items X cfg E vals of
                             Inl e \<Rightarrow> Inl e
                           | Inr elems \<Rightarrow>
                               if T = typeOf (cur (value' f))
                               then Inr (Set f (VSlice E (Some elems)))
                               else Inl (Panic ''reflect.Set: value is not assignable'')))))"
| "setSlice_items X cfg E [] = Inr []"
| "setSlice_items X cfg E (val0 # vals) =
     (let val = TrimSpace X val0
      in case newFieldData X cfg zeroStructField (handle (zero E)) None of
           Inl e \<Rightarrow> Inl e
         | Inr fd0 \<Rightarrow>
             (let fd = setType fd0 E
              in case setFieldData X cfg fd (AStr val) of
                   Inl e \<Rightarrow> Inl (IncorrectSliceItem val e)
                 | Inr fd' \<Rightarrow>
                     (case setSlice_items X cfg E vals of
                        Inl e \<Rightarrow> Inl e
                      | Inr r \<Rightarrow> Inr (cell (value' fd') # r))))"
| "slice_items X cfg E [] = Inr []"
| "slice_items X cfg E (x # xs) =
     (case newFieldData X cfg zeroStructField (handle (zero E)) None of
        Inl e \<Rightarrow> Inl e
      | Inr fd \<Rightarrow>
          (case setFieldData X cfg fd x of
             Inl e \<Rightarrow> Inl e
           | Inr fd' \<Rightarrow>
               (case slice_items X cfg E xs of
                  Inl e \<Rightarrow> Inl e
                | Inr r \<Rightarrow> Inr (cell (value' fd') # r))))"
| "setMap X cfg f s =
     (let vals = Split s '',''
      in case Type (field f) of
           None \<Rightarrow> Inl (Panic ''invalid memory address or nil pointer dereference'')
         | Some T \<Rightarrow>
             if Kind T \<noteq> KMap
             then Inl (Panic ''reflect.MakeMapWithSize of non-map type'')
             else (case Key T of
               Inl e \<Rightarrow> Inl e
             | Inr K \<Rightarrow>
                 (case Elem T of
                    Inl e \<Rightarrow> Inl e
                  | Inr Vm \<Rightarrow>
                      (case Elem (typeOf (cur (value' f))) of
                         Inl e \<Rightarrow> Inl e
                       | Inr V \<Rightarrow>
                           (case setMap_items X cfg f K V Vm vals [] of
                              Inl e \<Rightarrow> Inl e
                            | Inr kvs \<Rightarrow>
                                if T = typeOf (cur (value' f))
                                then Inr (Set f (VMap K Vm (Some kvs)))
                                else Inl (Panic ''reflect.Set: value is not assignable''))))))"
| "setMap_items X cfg f K V Vm [] acc = Inr acc"
| "setMap_items X cfg f K V Vm (val0 # vals) acc =
     (let entry = SplitN2 val0 '':''
      in if length entry \<noteq> 2 then Inl (IncorrectMapItem val0)
         else
          (let key = TrimSpace X (entry ! 0);
               val = TrimSpace X (entry ! 1)
           in case newSimpleFieldData X cfg (handle (zero K)) of
                Inl e \<Rightarrow> Inl e
              | Inr fdk \<Rightarrow>
                  (case setFieldData X cfg fdk (AStr key) of
                     Inl e \<Rightarrow> Inl (IncorrectMapKey key e)
                   | Inr fdk' \<Rightarrow>
                       (case newFieldData X cfg zeroStructField (handle (zero V)) (Some f) of
                          Inl e \<Rightarrow> Inl e
                        | Inr fdv0 \<Rightarrow>
                            (let fdv = setType fdv0 V
                             in case setFieldData X cfg fdv (AStr val) of
                                  Inl e \<Rightarrow> Inl (IncorrectMapValue (AStr val) e)
                                | Inr fdv' \<Rightarrow>
                                    (case SetMapIndex K Vm acc (value' fdk') (value' fdv') of
                                       Inl e \<Rightarrow> Inl e
                                     | Inr acc' \<Rightarrow> setMap_items X cfg f K V Vm vals acc'))))))"
| "map_entries X cfg f K V Vm [] acc = Inr acc"
| "map_entries X cfg f K V Vm ((key, val) # es) acc =
     (case newSimpleFieldData X cfg (handle (zero K)) of
        Inl e \<Rightarrow> Inl e
      | Inr fdk \<Rightarrow>
          (case setFieldData X cfg fdk (AStr key) of
             Inl e \<Rightarrow> Inl (IncorrectMapKey key e)
           | Inr fdk' \<Rightarrow>
               (case newFieldData X cfg zeroStructField (handle (zero V)) (Some f) of
                  Inl e \<Rightarrow> Inl e
                | Inr fdv0 \<Rightarrow>
                    (let fdv = setType fdv0 V
                     in case setFieldData X cfg fdv val of
                          Inl e \<Rightarrow> Inl (IncorrectMapValue val e)
                        | Inr fdv' \<Rightarrow>
                            (case SetMapIndex K Vm acc (value' fdk') (value' fdv') of
                               Inl e \<Rightarrow> Inl e
                             | Inr acc' \<Rightarrow> map_entries X cfg f K V Vm es acc')))))"
| "m2s X cfg [] ms = Inr ms"
| "m2s X cfg ((n0, v) # rest) ms =
     (let n = Title X n0
      in case FieldByName X (map fst ms) n of
           None \<Rightarrow> Inl (NoSuchField n)
         | Some (i, r) \<Rightarrow>
             (case FieldByIndex ms i r of
                Inl e \<Rightarrow> Inl e
              | Inr (m, mv) \<Rightarrow>
                  if \<not> exported X (mName m) then Inl (CannotSet n)
                  else (case newFieldData X cfg (StructField_of m) (handle mv) None of
                          Inl e \<Rightarrow> Inl e
                        | Inr fd \<Rightarrow>
                            (case setFieldData X cfg fd v of
                               Inl e \<Rightarrow> Inl e
                             | Inr fd' \<Rightarrow>
                                 m2s X cfg rest (SetByIndex ms i r (cell (value' fd')))))))"
  by pat_completeness auto

termination
  apply (relation "inv_image (less_than <*lex*> less_than <*lex*> less_than)
    (case_sum
      (case_sum
        (case_sum (\<lambda>(X, cfg, f, v). (asz v, 3 * fsz f + 2, 0))
                  (\<lambda>(X, cfg, f, s). (0, 3 * fsz f + 1, 0)))
        (case_sum (\<lambda>(X, cfg, E, vals). (0, 3 * tsz E + 3, length vals))
                  (\<lambda>(X, cfg, E, xs). (sum_list (map (\<lambda>x. Suc (asz x)) xs), 0, 0))))
      (case_sum
        (case_sum (\<lambda>(X, cfg, f, s). (0, 3 * fsz f + 1, 0))
                  (\<lambda>(X, cfg, f, K, V, Vm, vals, acc). (0, 3 * max (tsz K) (tsz V) + 3, length vals)))
        (case_sum (\<lambda>(X, cfg, f, K, V, Vm, es, acc). (esz es, 0, 0))
                  (\<lambda>(X, cfg, es, ms). (esz es, 0, 0)))))")
  apply (auto simp del: unwrap.simps
      simp: mii_esz seqOf_asz mapOf_asz fsz_fresh esz_simps term_unwrap term_slice term_map term_key)
  done

declare setFieldData.simps [simp del] setSlice.simps [simp del] setMap.simps [simp del]
declare unwrap.simps [simp del]

fun getFields_from :: "externals \<Rightarrow> Config \<Rightarrow> bool \<Rightarrow> gval \<Rightarrow> error + fieldData list \<times> gval" where
  "getFields_from X cfg addr (VPtr t (Some y)) =
     (case getFields_from X cfg True y of
        Inl e \<Rightarrow> Inl e
      | Inr (fs, y') \<Rightarrow> Inr (fs, VPtr t (Some y')))"
| "getFields_from X cfg addr (VPtr t None) =
     Inl (Panic ''reflect: call of reflect.Value.Type on zero Value'')"
| "getFields_from X cfg addr (VStruct ms) =
     (case getFieldsHelper X cfg addr ms None of
        Inl e \<Rightarrow> Inl e
      | Inr (fs, ms') \<Rightarrow> Inr (fs, VStruct ms'))"
| "getFields_from X cfg addr v =
     Inl (Panic ''reflect: call of reflect.Value.NumField on non-struct Value'')"

definition getFields :: "externals \<Rightarrow> Config \<Rightarrow> gval \<Rightarrow> error + fieldData list \<times> gval" where
  "getFields X cfg x = getFields_from X cfg False x"

section \<open>Source merge pipeline\<close>

text \<open>
  A pass returns the loader with the descriptors it has written, or the error.
  \<open>setFields\<close> is the loop over \<^verbatim>\<open>l.fields\<close> that \<^verbatim>\<open>loadEnvironment\<close> and
  \<^verbatim>\<open>loadFlags\<close> both have, with the prefix and the namespace of the pass;
  \<open>values\<close> is the map of the source and \<open>dupls\<close> the keys seen.
\<close>

definition setField ::
  "externals \<Rightarrow> Config \<Rightarrow> fieldData \<Rightarrow> string \<Rightarrow> (string \<times> any) list \<Rightarrow> string list
   \<Rightarrow> error + fieldData \<times> (string \<times> any) list \<times> string list" where
  "setField X cfg f n values dupls =
     (if \<not> AllowDuplicates cfg \<and> n \<in> set dupls then Inl (Duplicated n)
      else
       (let dupls = (if \<not> AllowDuplicates cfg then n # dupls else dupls)
        in case map_of values n of
             None \<Rightarrow> Inr (f, values, dupls)
           | Some val \<Rightarrow>
               (case setFieldData X cfg f val of
                  Inl e \<Rightarrow> Inl e
                | Inr f' \<Rightarrow>
                    Inr (setIsSet f' True,
                         if \<not> AllowDuplicates cfg then AList.delete n values else values,
                         dupls))))"

fun setFields ::
  "externals \<Rightarrow> Config \<Rightarrow> string \<Rightarrow> string \<Rightarrow> fieldData list \<Rightarrow> (string \<times> any) list \<Rightarrow> string list
   \<Rightarrow> error + fieldData list \<times> (string \<times> any) list \<times> string list" where
  "setFields X cfg pfx tag [] values dupls = Inr ([], values, dupls)"
| "setFields X cfg pfx tag (f # fs) values dupls =
     (let n = fullTag cfg pfx f tag
      in if n = []
         then (case setFields X cfg pfx tag fs values dupls of
                 Inl e \<Rightarrow> Inl e
               | Inr (fs', values', dupls') \<Rightarrow> Inr (f # fs', values', dupls'))
         else (case setField X cfg f n values dupls of
                 Inl e \<Rightarrow> Inl e
               | Inr (f', values1, dupls1) \<Rightarrow>
                   (case setFields X cfg pfx tag fs values1 dupls1 of
                      Inl e \<Rightarrow> Inl e
                    | Inr (fs', values', dupls') \<Rightarrow> Inr (f' # fs', values', dupls'))))"

definition postEnvCheck :: "Config \<Rightarrow> (string \<times> any) list \<Rightarrow> string list \<Rightarrow> error option" where
  "postEnvCheck cfg values dupls =
     (if AllowUnknownEnvs cfg \<or> EnvPrefix cfg = [] then None
      else
       (let values = filter (\<lambda>(k, v). k \<notin> set dupls) values
        in case List.find (\<lambda>(env, v). HasPrefix env (EnvPrefix cfg)) values of
             Some (env, v) \<Rightarrow> Some (UnknownEnv env)
           | None \<Rightarrow> None))"

definition postFlagCheck :: "Config \<Rightarrow> (string \<times> any) list \<Rightarrow> string list \<Rightarrow> error option" where
  "postFlagCheck cfg values dupls =
     (if AllowUnknownFlags cfg \<or> FlagPrefix cfg = [] then None
      else
       (let values = filter (\<lambda>(k, v). k \<notin> set dupls) values
        in case List.find (\<lambda>(flag, v). HasPrefix flag (FlagPrefix cfg)) values of
             Some (flag, v) \<Rightarrow> Some (UnknownFlag flag)
           | None \<Rightarrow> None))"

definition loadEnvironment :: "externals \<Rightarrow> Loader \<Rightarrow> error + Loader" where
  "loadEnvironment X l =
     (let actualEnvs = getEnv X (case Envs (config l) of None \<Rightarrow> [] | Some es \<Rightarrow> es);
          dupls = []
      in case setFields X (config l) (EnvPrefix (config l)) ''env'' (fields' l) actualEnvs dupls of
           Inl e \<Rightarrow> Inl e
         | Inr (fs, values, dupls') \<Rightarrow>
             (case postEnvCheck (config l) values dupls' of
                Some e \<Rightarrow> Inl e
              | None \<Rightarrow> Inr (l\<lparr>fields' := fs\<rparr>)))"

definition loadFlags :: "externals \<Rightarrow> Loader \<Rightarrow> error + Loader" where
  "loadFlags X l =
     (let actualFlags = getFlags X (flagSet l);
          dupls = []
      in case setFields X (config l) (FlagPrefix (config l)) ''flag'' (fields' l) actualFlags dupls of
           Inl e \<Rightarrow> Inl e
         | Inr (fs, values, dupls') \<Rightarrow>
             (case postFlagCheck (config l) values dupls' of
                Some e \<Rightarrow> Inl e
              | None \<Rightarrow> Inr (l\<lparr>fields' := fs\<rparr>)))"

fun loadDefaults_fields :: "externals \<Rightarrow> Config \<Rightarrow> fieldData list \<Rightarrow> error + fieldData list" where
  "loadDefaults_fields X cfg [] = Inr []"
| "loadDefaults_fields X cfg (f # fs) =
     (let defaultValue = Tag_of f ''default''
      in case setFieldData X cfg f (AStr defaultValue) of
           Inl e \<Rightarrow> Inl e
         | Inr f' \<Rightarrow>
             (case loadDefaults_fields X cfg fs of
                Inl e \<Rightarrow> Inl e
              | Inr fs' \<Rightarrow> Inr (setIsSet f' (defaultValue \<noteq> []) # fs')))"

definition loadDefaults :: "externals \<Rightarrow> Loader \<Rightarrow> error + Loader" where
  "loadDefaults X l =
     (case loadDefaults_fields X (config l) (fields' l) of
        Inl e \<Rightarrow> Inl e
      | Inr fs \<Rightarrow> Inr (l\<lparr>fields' := fs\<rparr>))"

fun loadFile_fields ::
  "externals \<Rightarrow> Config \<Rightarrow> string \<Rightarrow> fieldData list \<Rightarrow> (string \<times> any) list
   \<Rightarrow> error + fieldData list \<times> (string \<times> any) list" where
  "loadFile_fields X cfg tag [] actualFields = Inr ([], actualFields)"
| "loadFile_fields X cfg tag (f # fs) actualFields =
     (let n = fullTag cfg [] f tag
      in if n = []
         then (case loadFile_fields X cfg tag fs actualFields of
                 Inl e \<Rightarrow> Inl e
               | Inr (fs', a) \<Rightarrow> Inr (f # fs', a))
         else
          (let actualFields1 =
                 (case map_of actualFields n of
                    Some v \<Rightarrow> actualFields
                  | None \<Rightarrow> find' X actualFields n)
           in case map_of actualFields1 n of
                None \<Rightarrow>
                  (case loadFile_fields X cfg tag fs actualFields1 of
                     Inl e \<Rightarrow> Inl e
                   | Inr (fs', a) \<Rightarrow> Inr (f # fs', a))
              | Some v \<Rightarrow>
                  (case setFieldData X cfg f v of
                     Inl e \<Rightarrow> Inl e
                   | Inr f' \<Rightarrow>
                       (case loadFile_fields X cfg tag fs (AList.delete n actualFields1) of
                          Inl e \<Rightarrow> Inl e
                        | Inr (fs', a) \<Rightarrow> Inr (setIsSet f' True # fs', a)))))"

definition loadFile :: "externals \<Rightarrow> Loader \<Rightarrow> string \<Rightarrow> error + Loader" where
  "loadFile X l file =
     (let ext = ToLower X (Ext file)
      in case map_of (FileDecoders (config l)) ext of
           None \<Rightarrow> Inl (FormatNotSupported ext)
         | Some decoder \<Rightarrow>
             (case DecodeFile decoder file of
                Inl msg \<Rightarrow> Inl (External msg)
              | Inr actualFields \<Rightarrow>
                  (let tag = Format decoder
                   in case loadFile_fields X (config l) tag (fields' l) actualFields of
                        Inl e \<Rightarrow> Inl e
                      | Inr (fs, rest) \<Rightarrow>
                          (if \<not> AllowUnknownFields (config l)
                           then (case rest of
                                   (env, v) # _ \<Rightarrow> Inl (UnknownField file env)
                                 | [] \<Rightarrow> Inr (l\<lparr>fields' := fs\<rparr>))
                           else Inr (l\<lparr>fields' := fs\<rparr>)))))"

definition loadFileFlag :: "externals \<Rightarrow> Loader \<Rightarrow> error + Loader" where
  "loadFileFlag X l =
     (case getActualFlag X (FileFlag (config l)) (flagSet l) of
        None \<Rightarrow> Inr l
      | Some configFile \<Rightarrow>
          if configFile = [] then Inl (FileFlagEmpty (FileFlag (config l)))
          else if MergeFiles (config l)
          then Inr (l\<lparr>config := (config l)\<lparr>Files := Files (config l) @ [configFile]\<rparr>\<rparr>)
          else Inr (l\<lparr>config := (config l)\<lparr>Files := [configFile]\<rparr>\<rparr>))"

fun loadFiles_files :: "externals \<Rightarrow> Loader \<Rightarrow> string list \<Rightarrow> error + Loader" where
  "loadFiles_files X l [] = Inr l"
| "loadFiles_files X l (file # files) =
     (case StatNotExist X file of
        Some msg \<Rightarrow>
          if FailOnFileNotFound (config l) then Inl (NotExist msg)
          else loadFiles_files X l files
      | None \<Rightarrow>
          (case loadFile X l file of
             Inl e \<Rightarrow> Inl e
           | Inr l' \<Rightarrow>
               if \<not> MergeFiles (config l') then Inr l'
               else loadFiles_files X l' files))"

definition loadFiles :: "externals \<Rightarrow> Loader \<Rightarrow> error + Loader" where
  "loadFiles X l =
     (case (if FileFlag (config l) \<noteq> [] then loadFileFlag X l else Inr l) of
        Inl e \<Rightarrow> Inl e
      | Inr l1 \<Rightarrow> loadFiles_files X l1 (Files (config l1)))"

definition loadSources :: "externals \<Rightarrow> Loader \<Rightarrow> error + Loader" where
  "loadSources X l =
     (case (if \<not> SkipDefaults (config l)
            then (case loadDefaults X l of
                    Inl e \<Rightarrow> Inl (Wrap ''load defaults'' e)
                  | Inr l' \<Rightarrow> Inr l')
            else Inr l) of
        Inl e \<Rightarrow> Inl e
      | Inr l1 \<Rightarrow>
     (case (if \<not> SkipFiles (config l1)
            then (case loadFiles X l1 of
                    Inl e \<Rightarrow> Inl (Wrap ''load files'' e)
                  | Inr l' \<Rightarrow> Inr l')
            else Inr l1) of
        Inl e \<Rightarrow> Inl e
      | Inr l2 \<Rightarrow>
     (case (if \<not> SkipEnv (config l2)
            then (case loadEnvironment X l2 of
                    Inl e \<Rightarrow> Inl (Wrap ''load environment'' e)
                  | Inr l' \<Rightarrow> Inr l')
            else Inr l2) of
        Inl e \<Rightarrow> Inl e
      | Inr l3 \<Rightarrow>
          (if \<not> SkipFlags (config l3)
           then (case loadFlags X l3 of
                   Inl e \<Rightarrow> Inl (Wrap ''load flags'' e)
                 | Inr l' \<Rightarrow> Inr l')
           else Inr l3))))"

fun checkRequired_fields :: "Config \<Rightarrow> fieldData list \<Rightarrow> string list \<Rightarrow> string list" where
  "checkRequired_fields cfg [] missedFields = missedFields"
| "checkRequired_fields cfg (f # fs) missedFields =
     (if isSet f then checkRequired_fields cfg fs missedFields
      else if isRequired f \<or> AllFieldRequired cfg
      then checkRequired_fields cfg fs (missedFields @ [name f])
      else checkRequired_fields cfg fs missedFields)"

definition checkRequired :: "Loader \<Rightarrow> error option" where
  "checkRequired l =
     (let missedFields = checkRequired_fields (config l) (fields' l) []
      in if length missedFields = 0 then None
         else Some (RequiredNotSet (Join missedFields '','')))"

definition parseFlags :: "externals \<Rightarrow> Loader \<Rightarrow> error + Loader" where
  "parseFlags X l =
     (if parsed (flagSet l) \<or> SkipFlags (config l) then Inr l
      else case flagParse X (flagSet l) (case Args (config l) of None \<Rightarrow> [] | Some as \<Rightarrow> as) of
             Inl msg \<Rightarrow> Inl (External msg)
           | Inr fs \<Rightarrow> Inr (l\<lparr>flagSet := fs\<rparr>))"

definition loadConfig :: "externals \<Rightarrow> Loader \<Rightarrow> error + Loader" where
  "loadConfig X l =
     (case parseFlags X l of
        Inl e \<Rightarrow> Inl e
      | Inr l1 \<Rightarrow>
          (case loadSources X l1 of
             Inl e \<Rightarrow> Inl e
           | Inr l2 \<Rightarrow>
               (case checkRequired l2 of
                  Some e \<Rightarrow> Inl e
                | None \<Rightarrow> Inr l2)))"

definition Load :: "externals \<Rightarrow> Loader \<Rightarrow> error + Loader" where
  "Load X l =
     (case errInit l of
        Some e \<Rightarrow> Inl (Wrap ''init loader'' e)
      | None \<Rightarrow>
          (case loadConfig X l of
             Inl e \<Rightarrow> Inl (Wrap ''load config'' e)
           | Inr l' \<Rightarrow> Inr l'))"

section \<open>Construction\<close>

definition NewFlagSet :: "string \<Rightarrow> FlagSet" where
  "NewFlagSet n = \<lparr>fsName = n, formal = [], parsed = False, actual = []\<rparr>"

fun init_flags ::
  "externals \<Rightarrow> Config \<Rightarrow> fieldData list \<Rightarrow> FlagSet \<Rightarrow> string list
   \<Rightarrow> error + FlagSet \<times> error option" where
  "init_flags X cfg [] fset names = Inr (fset, None)"
| "init_flags X cfg (f # fs) fset names =
     (let flagName = fullTag cfg (FlagPrefix cfg) f ''flag''
      in if flagName = [] then init_flags X cfg fs fset names
         else if flagName \<in> set names \<and> \<not> AllowDuplicates cfg
         then Inr (fset, Some (DuplicateFlag flagName))
         else (case flagString X fset flagName (Tag_of f ''default'') (Tag_of f ''usage'') of
                 Inl msg \<Rightarrow> Inl (Panic msg)
               | Inr fset' \<Rightarrow> init_flags X cfg fs fset' (flagName # names)))"

definition init_config :: "externals \<Rightarrow> Config \<Rightarrow> Config" where
  "init_config X cfg0 =
     (let cfg = cfg0\<lparr>envDelimiter := ''_''\<rparr>;
          cfg = (if FlagDelimiter cfg = [] then cfg\<lparr>FlagDelimiter := ''.''\<rparr> else cfg);
          cfg = (if EnvPrefix cfg \<noteq> [] then cfg\<lparr>EnvPrefix := EnvPrefix cfg @ envDelimiter cfg\<rparr>
                 else cfg);
          cfg = (if FlagPrefix cfg \<noteq> [] then cfg\<lparr>FlagPrefix := FlagPrefix cfg @ FlagDelimiter cfg\<rparr>
                 else cfg);
          cfg = (if map_of (FileDecoders cfg) ''.json'' = None
                 then cfg\<lparr>FileDecoders := FileDecoders cfg @ [(''.json'', jsonDecoder X)]\<rparr>
                 else cfg);
          cfg = (if Envs cfg = None then cfg\<lparr>Envs := Some (Environ X)\<rparr> else cfg);
          cfg = (if Args cfg = None then cfg\<lparr>Args := Some (osArgs X)\<rparr> else cfg)
      in cfg)"

definition init :: "externals \<Rightarrow> Loader \<Rightarrow> error + Loader" where
  "init X l =
     (let cfg = init_config X (config l)
      in case getFields X cfg (dst l) of
           Inl e \<Rightarrow> Inl e
         | Inr (fs, dst') \<Rightarrow>
             (let l1 = l\<lparr>config := cfg, dst := dst', fields' := fs, flagSet := NewFlagSet (FlagPrefix cfg)\<rparr>
              in case (if \<not> SkipFlags cfg then init_flags X cfg fs (flagSet l1) []
                       else Inr (flagSet l1, None)) of
                   Inl e \<Rightarrow> Inl e
                 | Inr (fset, Some e) \<Rightarrow> Inr (l1\<lparr>flagSet := fset, errInit := Some e\<rparr>)
                 | Inr (fset, None) \<Rightarrow>
                     (case (if FileFlag cfg \<noteq> []
                            then flagString X fset (FileFlag cfg) [] ''config file param''
                            else Inr fset) of
                        Inl msg \<Rightarrow> Inl (Panic msg)
                      | Inr fset' \<Rightarrow>
                          Inr (l1\<lparr>flagSet := fset',
                                  config := (if SliceSeparator cfg = []
                                             then cfg\<lparr>SliceSeparator := '',''\<rparr> else cfg)\<rparr>))))"


subsection \<open>Names for the keys and source maps of the two flat passes\<close>

abbreviation envKey :: "Loader \<Rightarrow> fieldData \<Rightarrow> string" where
  "envKey l f \<equiv> fullTag (config l) (EnvPrefix (config l)) f ''env''"

abbreviation flagKey :: "Loader \<Rightarrow> fieldData \<Rightarrow> string" where
  "flagKey l f \<equiv> fullTag (config l) (FlagPrefix (config l)) f ''flag''"

abbreviation actualEnvs :: "externals \<Rightarrow> Loader \<Rightarrow> (string \<times> any) list" where
  "actualEnvs X l \<equiv> getEnv X (case Envs (config l) of None \<Rightarrow> [] | Some es \<Rightarrow> es)"

abbreviation actualFlags :: "externals \<Rightarrow> Loader \<Rightarrow> (string \<times> any) list" where
  "actualFlags X l \<equiv> getFlags X (flagSet l)"

section \<open>A small schema for instances\<close>

text \<open>
  An instance of the collaborators, a configuration as \<^verbatim>\<open>init\<close> leaves it and a few
  descriptors, on which the theorems below are instantiated. \<open>ex_getEnv\<close> splits each
  \<^verbatim>\<open>NAME=VALUE\<close> at its first \<open>=\<close>.

  Beyond ASCII the instance knows the letters and spaces of Latin-1, in UTF-8 (a byte
  \<open>0xC2\<close> or \<open>0xC3\<close> and one more byte), and leaves any other text as it is:
  \<open>ex_latin_lower\<close> and \<open>ex_latin_upper\<close> are the second bytes of the lower-case
  letters from \<open>U+00E0\<close> to \<open>U+00FE\<close> and of their upper-case letters.
  \<open>ex_FieldByNameFunc\<close> searches the embedded structs one depth at a time:
  \<open>ex_search\<close> holds the structs of the current depth, each with its index path,
  stops at the first depth that has the name, and finds nothing if that depth has it
  twice.
\<close>

definition ex_latin_lower :: string where
  "ex_latin_lower = [
     CHR 0xA0, CHR 0xA1, CHR 0xA2, CHR 0xA3, CHR 0xA4, CHR 0xA5, CHR 0xA6, CHR 0xA7,
     CHR 0xA8, CHR 0xA9, CHR 0xAA, CHR 0xAB, CHR 0xAC, CHR 0xAD, CHR 0xAE, CHR 0xAF,
     CHR 0xB0, CHR 0xB1, CHR 0xB2, CHR 0xB3, CHR 0xB4, CHR 0xB5, CHR 0xB6, CHR 0xB8,
     CHR 0xB9, CHR 0xBA, CHR 0xBB, CHR 0xBC, CHR 0xBD, CHR 0xBE]"

definition ex_latin_upper :: string where
  "ex_latin_upper = [
     CHR 0x80, CHR 0x81, CHR 0x82, CHR 0x83, CHR 0x84, CHR 0x85, CHR 0x86, CHR 0x87,
     CHR 0x88, CHR 0x89, CHR 0x8A, CHR 0x8B, CHR 0x8C, CHR 0x8D, CHR 0x8E, CHR 0x8F,
     CHR 0x90, CHR 0x91, CHR 0x92, CHR 0x93, CHR 0x94, CHR 0x95, CHR 0x96, CHR 0x98,
     CHR 0x99, CHR 0x9A, CHR 0x9B, CHR 0x9C, CHR 0x9D, CHR 0x9E]"

definition ex_latinToUpper :: "char \<Rightarrow> char" where
  "ex_latinToUpper d =
     (case map_of (zip ex_latin_lower ex_latin_upper) d of Some u \<Rightarrow> u | None \<Rightarrow> d)"

definition ex_latinToLower :: "char \<Rightarrow> char" where
  "ex_latinToLower d =
     (case map_of (zip ex_latin_upper ex_latin_lower) d of Some u \<Rightarrow> u | None \<Rightarrow> d)"

fun ex_Title_from :: "bool \<Rightarrow> string \<Rightarrow> string" where
  "ex_Title_from sep [] = []"
| "ex_Title_from sep [c] = [if sep then ToUpper_char c else c]"
| "ex_Title_from sep (c # d # s) =
     (if (of_char c :: nat) < 128
      then (if sep then ToUpper_char c else c) # ex_Title_from (isSeparator c) (d # s)
      else if c = CHR 0xC3 \<and> sep \<and> d = CHR 0xBF then CHR 0xC5 # CHR 0xB8 # ex_Title_from False s
      else if c = CHR 0xC3
        then c # (if sep then ex_latinToUpper d else d) # ex_Title_from False s
      else if c = CHR 0xC2 \<and> sep \<and> d = CHR 0xB5 then CHR 0xCE # CHR 0x9C # ex_Title_from False s
      else if c = CHR 0xC2 then c # d # ex_Title_from (d = CHR 0x85 \<or> d = CHR 0xA0) s
      else c # d # ex_Title_from False s)"

fun ex_ToLower :: "string \<Rightarrow> string" where
  "ex_ToLower [] = []"
| "ex_ToLower [c] = [ToLower_char c]"
| "ex_ToLower (c # d # s) =
     (if c = CHR 0xC3
      then c # ex_latinToLower d # ex_ToLower s
      else ToLower_char c # ex_ToLower (d # s))"

fun ex_trimLeft :: "string \<Rightarrow> string" where
  "ex_trimLeft [] = []"
| "ex_trimLeft [c] = (if isSpace c then [] else [c])"
| "ex_trimLeft (c # d # s) =
     (if isSpace c then ex_trimLeft (d # s)
      else if c = CHR 0xC2 \<and> (d = CHR 0x85 \<or> d = CHR 0xA0) then ex_trimLeft s
      else c # d # s)"

fun ex_trimRight :: "string \<Rightarrow> string" where
  "ex_trimRight [] = []"
| "ex_trimRight [c] = (if isSpace c then [] else [c])"
| "ex_trimRight (d # c # s) =
     (if isSpace d then ex_trimRight (c # s)
      else if c = CHR 0xC2 \<and> (d = CHR 0x85 \<or> d = CHR 0xA0) then ex_trimRight s
      else d # c # s)"

definition ex_isExported :: "string \<Rightarrow> bool" where
  "ex_isExported n =
     (case n of c # d # _ \<Rightarrow> c = CHR 0xC3 \<and> d \<in> set ex_latin_upper | _ \<Rightarrow> False)"

fun ex_structType :: "gtype \<Rightarrow> member list option" where
  "ex_structType (TStruct ms) = Some ms"
| "ex_structType (TText n t) = ex_structType t"
| "ex_structType t = None"

definition ex_embedded :: "member \<Rightarrow> member list option" where
  "ex_embedded m =
     (if mAnonymous m
      then (case mType m of TPtr t \<Rightarrow> ex_structType t | t \<Rightarrow> ex_structType t)
      else None)"

fun ex_hits :: "nat list \<Rightarrow> nat \<Rightarrow> member list \<Rightarrow> string \<Rightarrow> nat list list" where
  "ex_hits p k [] n = []"
| "ex_hits p k (m # ms) n = (if mName m = n then [p @ [k]] else []) @ ex_hits p (Suc k) ms n"

fun ex_subs :: "nat list \<Rightarrow> nat \<Rightarrow> member list \<Rightarrow> (nat list \<times> member list) list" where
  "ex_subs p k [] = []"
| "ex_subs p k (m # ms) =
     (case ex_embedded m of Some ms' \<Rightarrow> [(p @ [k], ms')] | None \<Rightarrow> []) @ ex_subs p (Suc k) ms"

fun ex_search :: "nat \<Rightarrow> (nat list \<times> member list) list \<Rightarrow> string \<Rightarrow> nat list option" where
  "ex_search 0 level n = None"
| "ex_search (Suc depth) level n =
     (case concat (map (\<lambda>(p, ms). ex_hits p 0 ms n) level) of
        [] \<Rightarrow> (case concat (map (\<lambda>(p, ms). ex_subs p 0 ms) level) of
                 [] \<Rightarrow> None
               | next \<Rightarrow> ex_search depth next n)
      | [p] \<Rightarrow> Some p
      | _ \<Rightarrow> None)"

definition ex_FieldByNameFunc :: "member list \<Rightarrow> string \<Rightarrow> (nat \<times> nat list) option" where
  "ex_FieldByNameFunc ms n =
     (case ex_search (tsz (TStruct ms)) [([], ms)] n of
        Some (i # r) \<Rightarrow> Some (i, r)
      | _ \<Rightarrow> None)"

definition ex_getEnv :: "string list \<Rightarrow> (string \<times> any) list" where
  "ex_getEnv envs =
     foldl (\<lambda>res env. case cut env ''='' of
                         (k, v, True) \<Rightarrow> AList.update k (AStr v) res
                       | (_, _, False) \<Rightarrow> res) [] envs"

definition ex_externals :: externals where
  "ex_externals = \<lparr>
     ParseBool = (\<lambda>s. if s = ''true'' then Inr True
                       else if s = ''false'' then Inr False else Inl ''invalid syntax''),
     ParseInt = (\<lambda>s base bits. if s = ''0'' then Inr 0 else Inl ''invalid syntax''),
     ParseUint = (\<lambda>s base bits. if s = ''0'' then Inr 0 else Inl ''invalid syntax''),
     ParseFloat = (\<lambda>s bits. if s = ''0'' then Inr (0, 0) else Inl ''invalid syntax''),
     ParseDuration = (\<lambda>s. if s = ''0'' then Inr 0 else Inl ''invalid duration''),
     SprintOther = (\<lambda>v. ''<nil>''),
     UnmarshalText = (\<lambda>n u s. Inr u),
     flagString = (\<lambda>fset n d u. if n \<in> fst ` set (formal fset) then Inl (''flag redefined: '' @ n)
                                 else Inr (fset\<lparr>formal := formal fset @ [(n, d, u)]\<rparr>)),
     flagParse = (\<lambda>fset args. Inr (fset\<lparr>parsed := True\<rparr>)),
     StatNotExist = (\<lambda>file. None),
     Environ = [],
     osArgs = [],
     assertStruct = (\<lambda>v. None),
     isPrimitive = (\<lambda>t. Kind t \<noteq> KStruct \<and> Kind t \<noteq> KSlice \<and> Kind t \<noteq> KMap),
     sliceToString = (\<lambda>cfg v. case v of AStr s \<Rightarrow> Inr s | _ \<Rightarrow> Inl ''sliceToString''),
     makeName = (\<lambda>n p. case p of None \<Rightarrow> n | Some q \<Rightarrow> name q @ ''.'' @ n),
     makeTagValue = (\<lambda>cfg fld tag words. Get (Tag fld) tag),
     splitNameByWords = (\<lambda>n. [n]),
     find' = (\<lambda>a n. a),
     getEnv = ex_getEnv,
     getFlags = (\<lambda>fset. map (\<lambda>(k, v). (k, AStr v)) (actual fset)),
     getActualFlag = (\<lambda>n fset. map_of (actual fset) n),
     jsonDecoder = \<lparr>Format = ''json'', DecodeFile = (\<lambda>file. Inr [])\<rparr>,
     strTitle = ex_Title_from True,
     strToLower = ex_ToLower,
     strTrimSpace = (\<lambda>s. rev (ex_trimRight (rev (ex_trimLeft s)))),
     isExported = ex_isExported,
     FieldByNameFunc = ex_FieldByNameFunc\<rparr>"

definition ex_config :: Config where
  "ex_config = \<lparr>SkipDefaults = False, SkipFiles = False, SkipEnv = False, SkipFlags = False,
     EnvPrefix = ''APP_'', FlagPrefix = ''app-'', envDelimiter = ''_'', FlagDelimiter = ''-'',
     AllFieldRequired = False, AllowDuplicates = False, AllowUnknownFields = False,
     AllowUnknownEnvs = False, AllowUnknownFlags = False, DontGenerateTags = False,
     FailOnFileNotFound = False, MergeFiles = False, FileFlag = [], Files = [],
     Envs = Some [], Args = Some [], FileDecoders = [], SliceSeparator = '',''\<rparr>"

definition ex_field ::
  "string \<Rightarrow> fieldData option \<Rightarrow> gtype \<Rightarrow> string \<Rightarrow> string \<Rightarrow> string \<Rightarrow> fieldData" where
  "ex_field n p t e fl js = FieldData n p \<lparr>Name = n, Type = Some t, Tag = [], Anonymous = False\<rparr>
     (handle (zero t)) False False
     [(''default'', []), (''usage'', []), (''env'', e), (''flag'', fl), (''json'', js)]"

definition ex_db :: fieldData where
  "ex_db = ex_field ''Db'' None (TStruct []) ''DB'' ''db'' ''db''"

definition ex_inner :: fieldData where
  "ex_inner = ex_field ''Db.Inner'' (Some ex_db) (TStruct []) ''-'' ''-'' ''-''"

definition ex_host :: fieldData where
  "ex_host = ex_field ''Db.Inner.Host'' (Some ex_inner) TString ''HOST'' ''host'' ''host''"

definition ex_abs :: fieldData where
  "ex_abs = ex_field ''Db.Inner.Abs'' (Some ex_inner) TString ''ABS,exact'' ''abs,omitempty'' ''-''"

definition ex_required :: "string \<Rightarrow> string \<Rightarrow> string \<Rightarrow> fieldData" where
  "ex_required n e fl = FieldData n None
     \<lparr>Name = n, Type = Some TString, Tag = [(''required'', ''true'')], Anonymous = False\<rparr>
     (handle (zero TString)) False True
     [(''default'', []), (''usage'', []), (''env'', e), (''flag'', fl), (''json'', fl)]"

definition ex_flagSet :: FlagSet where
  "ex_flagSet = \<lparr>fsName = ''app-'', formal = [], parsed = True, actual = []\<rparr>"

definition ex_loader :: Loader where
  "ex_loader = \<lparr>config = ex_config\<lparr>Envs := Some [''APP_DB_HOST=h'']\<rparr>, dst = VStruct [],
     fields' = [ex_host, ex_required ''Port'' ''PORT'' ''port'', ex_required ''Name'' ''NAME'' ''name''],
     flagSet = ex_flagSet, errInit = None\<rparr>"



definition ex_fooBar :: member where
  "ex_fooBar = Member ''FooBar'' TString [] False"

definition ex_config0 :: Config where
  "ex_config0 = ex_config\<lparr>EnvPrefix := ''APP'', FlagPrefix := ''app'', FlagDelimiter := ''-'',
     envDelimiter := []\<rparr>"

definition ex_loader0 :: Loader where
  "ex_loader0 = \<lparr>config = ex_config0, dst = VPtr (TStruct []) (Some (VStruct [])), fields' = [],
     flagSet = NewFlagSet [], errInit = None\<rparr>"


definition ex_a :: fieldData where
  "ex_a = ex_field ''A'' None TString ''SAME'' ''same'' ''same''"

definition ex_b :: fieldData where
  "ex_b = ex_field ''B'' None TString ''SAME'' ''same'' ''same''"

definition ex_dup :: Loader where
  "ex_dup = \<lparr>config = ex_config\<lparr>Envs := Some [''APP_SAME=v'']\<rparr>, dst = VStruct [],
     fields' = [ex_a, ex_b], flagSet = ex_flagSet, errInit = None\<rparr>"

definition ex_foo :: fieldData where
  "ex_foo = ex_field ''Foo'' None TString ''FOO'' ''foo'' ''foo''"

definition ex_allow :: Loader where
  "ex_allow = \<lparr>config = ex_config\<lparr>AllowDuplicates := True, Envs := Some [''APP_FOO=x'']\<rparr>,
     dst = VStruct [], fields' = [ex_foo], flagSet = ex_flagSet, errInit = None\<rparr>"



definition ex_xMember :: member where
  "ex_xMember = Member ''X'' TString [] False"

definition ex_eMember :: member where
  "ex_eMember = Member ''E'' (TStruct [ex_xMember]) [] True"

definition ex_yMember :: member where
  "ex_yMember = Member ''Y'' TString [] False"

definition ex_elan :: member where
  "ex_elan = Member [CHR 0xC3, CHR 0x89, CHR ''l'', CHR ''a'', CHR ''n''] TString [] False"







section \<open>The key resolver\<close>

lemma fullTag_parents_segments:
  "fullTag_parents p tag sep res = segments (ancestors p) tag sep @ res"
  by (induction p tag sep res rule: fullTag_parents.induct) (auto simp: segments_def)

lemma cut_not_found:
  "\<not> (\<exists>u v. s = u @ sep @ v) \<Longrightarrow> cut s sep = (s, [], False)"
proof (induction s)
  case Nil
  then show ?case by auto
next
  case (Cons c s)
  have np: "\<not> prefix sep (c # s)"
    using Cons.prems by (metis append_Nil prefixE)
  have "\<not> (\<exists>u v. s = u @ sep @ v)"
    using Cons.prems by (metis append_Cons)
  then have "cut s sep = (s, [], False)" by (rule Cons.IH)
  with np show ?case by simp
qed

lemma cut_at_start: "cut (sep @ a) sep = ([], a, True)"
proof (cases "sep @ a")
  case Nil
  then show ?thesis by simp
next
  case (Cons c s)
  have "prefix sep (c # s)" using Cons by (metis prefixI)
  moreover have "drop (length sep) (c # s) = a" using Cons by (metis append_eq_conv_conj)
  ultimately show ?thesis using Cons by simp
qed

lemma cut_found:
  "s = b @ sep @ a \<Longrightarrow> \<not> occurs_before sep s (length b) \<Longrightarrow> cut s sep = (b, a, True)"
proof (induction b arbitrary: s)
  case Nil
  then show ?case by (simp add: cut_at_start)
next
  case (Cons c b)
  have np: "\<not> prefix sep s"
  proof
    assume "prefix sep s"
    then obtain v where "s = [] @ sep @ v" by (auto elim: prefixE)
    then have "occurs_before sep s (length (c # b))" unfolding occurs_before_def by fastforce
    with Cons.prems show False by simp
  qed
  have s: "s = c # (b @ sep @ a)" using Cons.prems by simp
  have "\<not> occurs_before sep (b @ sep @ a) (length b)"
  proof
    assume "occurs_before sep (b @ sep @ a) (length b)"
    then obtain u v where "b @ sep @ a = u @ sep @ v" "length u < length b"
      unfolding occurs_before_def by blast
    then have "s = (c # u) @ sep @ v \<and> length (c # u) < length (c # b)" using s by simp
    then have "occurs_before sep s (length (c # b))" unfolding occurs_before_def by blast
    with Cons.prems show False by simp
  qed
  then have "cut (b @ sep @ a) sep = (b, a, True)" using Cons.IH by simp
  with np s show ?case by simp
qed

lemma append_eq_split:
  assumes "b @ x = u @ y" and "length b \<le> length u"
  shows "\<exists>w. u = b @ w \<and> x = w @ y"
proof -
  have "take (length b) (b @ x) = take (length b) (u @ y)"
    using assms(1) by (rule arg_cong)
  then have "b = take (length b) u" using assms(2) by simp
  then have u: "u = b @ drop (length b) u" by (metis append_take_drop_id)
  then have "b @ x = b @ drop (length b) u @ y" using assms(1) by (metis append_assoc)
  then have "x = drop (length b) u @ y" by simp
  with u show ?thesis by blast
qed

lemma comma_free_no_marker:
  assumes "x = c # w @ CHR '','' # y"
  shows "CHR '','' \<in> set (tl x)"
  using assms by simp

lemma exact_not_in_omitempty:
  assumes "b @ '',omitempty'' = u @ '',exact'' @ v"
  shows "length u < length b"
proof (rule ccontr)
  assume "\<not> length u < length b"
  then have le: "length b \<le> length u" by simp
  from append_eq_split[OF assms le] obtain w where
    w: "'',omitempty'' = w @ '',exact'' @ v" by auto
  show False
  proof (cases w)
    case Nil
    with w show False by simp
  next
    case (Cons c w')
    with w have "'',omitempty'' = c # w' @ CHR '','' # (''exact'' @ v)" by simp
    then have "CHR '','' \<in> set (tl '',omitempty'')" by (rule comma_free_no_marker)
    then show False by simp
  qed
qed

lemma fullTag_plain:
  assumes "Tag_of f tag \<noteq> ''-''"
    and "\<not> (\<exists>u v. Tag_of f tag = u @ '',exact'' @ v)"
    and "\<not> (\<exists>u v. Tag_of f tag = u @ '',omitempty'' @ v)"
  shows "fullTag cfg pfx f tag =
     pfx @ segments (ancestors (parent f)) tag
       (if tag = ''env'' then envDelimiter cfg
        else if tag = ''flag'' then FlagDelimiter cfg else ''.'') @ Tag_of f tag"
  using assms
  by (simp add: fullTag_def Let_def cut_not_found fullTag_parents_segments)

lemma fullTag_marker:
  assumes "Tag_of f tag = before @ m" and "m = '',exact'' \<or> m = '',omitempty''"
    and "\<not> occurs_before '',exact'' (Tag_of f tag) (length before)"
    and "\<not> occurs_before '',omitempty'' (Tag_of f tag) (length before)"
  shows "fullTag cfg pfx f tag = before"
proof -
  have ne: "Tag_of f tag \<noteq> ''-''" using assms(1,2) by (cases before) auto
  show ?thesis
  proof (cases "m = '',exact''")
    case True
    then have "cut (Tag_of f tag) '',exact'' = (before, [], True)"
      using assms(1,3) cut_found[of "Tag_of f tag" before "'',exact''" "[]"] by simp
    then show ?thesis using ne by (simp add: fullTag_def Let_def)
  next
    case False
    then have m: "m = '',omitempty''" using assms(2) by simp
    have "\<not> (\<exists>u v. Tag_of f tag = u @ '',exact'' @ v)"
    proof
      assume "\<exists>u v. Tag_of f tag = u @ '',exact'' @ v"
      then obtain u v where uv: "Tag_of f tag = u @ '',exact'' @ v" by blast
      then have "length u < length before"
        using exact_not_in_omitempty[of before u v] assms(1) m by simp
      then have "occurs_before '',exact'' (Tag_of f tag) (length before)"
        unfolding occurs_before_def using uv by blast
      with assms(3) show False by simp
    qed
    then have c1: "cut (Tag_of f tag) '',exact'' = (Tag_of f tag, [], False)"
      by (rule cut_not_found)
    have c2: "cut (Tag_of f tag) '',omitempty'' = (before, [], True)"
      using assms(1,4) m cut_found[of "Tag_of f tag" before "'',omitempty''" "[]"] by simp
    show ?thesis using ne c1 c2 by (simp add: fullTag_def Let_def)
  qed
qed

lemma segments_skip:
  "Tag_of p tag = ''-'' \<Longrightarrow> segments (ps @ p # qs) tag sep = segments (ps @ qs) tag sep"
  by (simp add: segments_def)

lemma not_occurs_before_comma_free:
  assumes "CHR '','' \<notin> set b"
  shows "\<not> occurs_before (CHR '','' # m) (b @ r) (length b)"
proof
  assume "occurs_before (CHR '','' # m) (b @ r) (length b)"
  then obtain u v where uv: "b @ r = u @ (CHR '','' # m) @ v" and lt: "length u < length b"
    unfolding occurs_before_def by blast
  have "(b @ r) ! length u = (u @ (CHR '','' # m) @ v) ! length u" using uv by simp
  then have "b ! length u = CHR '',''" using lt by (simp add: nth_append)
  then have "CHR '','' \<in> set b" using lt by (metis nth_mem)
  with assms show False by simp
qed

text \<open>
  C4. For every descriptor and namespace: a declaration \<open>''-''\<close> resolves to the empty
  key; a declaration that ends in the marker \<open>'',exact''\<close> or \<open>'',omitempty''\<close> (no
  marker starting earlier in it) resolves to the text before the marker, with neither the
  prefix nor a parent segment; any other declaration resolves to the prefix, the segments
  of the parent chain and the declaration, and an ancestor whose declaration is
  \<open>''-''\<close> adds nothing to the segments.
\<close>

theorem fullTag_exclusion_and_markers:
  "(Tag_of f tag = ''-'' \<longrightarrow> fullTag cfg pfx f tag = [])
   \<and> (Tag_of f tag = before @ m \<and> (m = '',exact'' \<or> m = '',omitempty'')
        \<and> \<not> occurs_before '',exact'' (Tag_of f tag) (length before)
        \<and> \<not> occurs_before '',omitempty'' (Tag_of f tag) (length before)
      \<longrightarrow> fullTag cfg pfx f tag = before)
   \<and> (Tag_of f tag \<noteq> ''-'' \<and> \<not> (\<exists>u v. Tag_of f tag = u @ '',exact'' @ v)
        \<and> \<not> (\<exists>u v. Tag_of f tag = u @ '',omitempty'' @ v)
      \<longrightarrow> fullTag cfg pfx f tag =
            pfx @ segments (ancestors (parent f)) tag
              (if tag = ''env'' then envDelimiter cfg
               else if tag = ''flag'' then FlagDelimiter cfg else ''.'') @ Tag_of f tag)
   \<and> (Tag_of p tag = ''-'' \<longrightarrow> segments (ps @ p # qs) tag sep = segments (ps @ qs) tag sep)"
proof (intro conjI impI)
  assume "Tag_of f tag = ''-''"
  then show "fullTag cfg pfx f tag = []" by (simp add: fullTag_def)
next
  assume "Tag_of f tag = before @ m \<and> (m = '',exact'' \<or> m = '',omitempty'')
        \<and> \<not> occurs_before '',exact'' (Tag_of f tag) (length before)
        \<and> \<not> occurs_before '',omitempty'' (Tag_of f tag) (length before)"
  then show "fullTag cfg pfx f tag = before" using fullTag_marker by blast
next
  assume "Tag_of f tag \<noteq> ''-'' \<and> \<not> (\<exists>u v. Tag_of f tag = u @ '',exact'' @ v)
        \<and> \<not> (\<exists>u v. Tag_of f tag = u @ '',omitempty'' @ v)"
  then show "fullTag cfg pfx f tag =
            pfx @ segments (ancestors (parent f)) tag
              (if tag = ''env'' then envDelimiter cfg
               else if tag = ''flag'' then FlagDelimiter cfg else ''.'') @ Tag_of f tag"
    using fullTag_plain by blast
next
  assume "Tag_of p tag = ''-''"
  then show "segments (ps @ p # qs) tag sep = segments (ps @ qs) tag sep"
    by (rule segments_skip)
qed

lemma no_comma_no_occurrence:
  assumes "CHR '','' \<notin> set s"
  shows "\<not> (\<exists>u v. s = u @ (CHR '','' # m) @ v)"
  using assms by auto

lemma ex_tags:
  "Tag_of ex_host ''env'' = ''HOST''" "Tag_of ex_inner ''env'' = ''-''"
  "Tag_of ex_db ''env'' = ''DB''" "Tag_of ex_abs ''env'' = ''ABS,exact''"
  "Tag_of ex_abs ''flag'' = ''abs,omitempty''" "Tag_of ex_abs ''json'' = ''-''"
  by (simp_all add: Tag_of_def ex_host_def ex_inner_def ex_db_def ex_abs_def ex_field_def)

theorem fullTag_exclusion_and_markers_witness:
  "fullTag ex_config ''APP_'' ex_abs ''json'' = []
   \<and> fullTag ex_config ''APP_'' ex_abs ''env'' = ''ABS''
   \<and> fullTag ex_config ''app-'' ex_abs ''flag'' = ''abs''
   \<and> fullTag ex_config ''APP_'' ex_host ''env'' = ''APP_DB_HOST''
   \<and> segments ([] @ ex_inner # [ex_db]) ''env'' ''_'' = ''DB_''"
proof -
  have a: "\<not> occurs_before '',exact'' (''ABS'' @ '',exact'') (length ''ABS'')"
    "\<not> occurs_before '',omitempty'' (''ABS'' @ '',exact'') (length ''ABS'')"
    "\<not> occurs_before '',exact'' (''abs'' @ '',omitempty'') (length ''abs'')"
    "\<not> occurs_before '',omitempty'' (''abs'' @ '',omitempty'') (length ''abs'')"
    by (rule not_occurs_before_comma_free, simp)+
  have b: "\<not> (\<exists>u v. ''HOST'' = u @ '',exact'' @ v)" "\<not> (\<exists>u v. ''HOST'' = u @ '',omitempty'' @ v)"
    by (rule no_comma_no_occurrence, simp)+
  have anc: "ancestors (parent ex_host) = [ex_inner, ex_db]"
    by (simp add: ex_host_def ex_inner_def ex_db_def ex_field_def)
  have seg: "segments [ex_db] ''env'' ''_'' = ''DB_''"
    by (simp add: segments_def ex_tags)
  show ?thesis
    using fullTag_exclusion_and_markers[of ex_abs "''json''" ex_config "''APP_''" "[]" "[]" ex_inner "[]" "[ex_db]" "''_''"]
      fullTag_exclusion_and_markers[of ex_abs "''env''" ex_config "''APP_''" "''ABS''" "'',exact''" ex_inner "[]" "[ex_db]" "''_''"]
      fullTag_exclusion_and_markers[of ex_abs "''flag''" ex_config "''app-''" "''abs''" "'',omitempty''" ex_inner "[]" "[ex_db]" "''_''"]
      fullTag_exclusion_and_markers[of ex_host "''env''" ex_config "''APP_''" "[]" "[]" ex_inner "[]" "[ex_db]" "''_''"]
      a b anc seg
    by (simp add: ex_tags ex_config_def)
qed

section \<open>Coercion of absent values; required fields\<close>

lemma unwrap_non_pointer:
  "Kind (typeOf (cur v)) \<noteq> KPtr \<Longrightarrow> unwrap v = v"
  by (subst unwrap.simps) (cases "cur v"; simp)

lemma setValue_same: "setValue f (value' f) = f"
  by (cases f) (simp add: setValue_def)

lemma setFieldData_absent:
  "setFieldData X cfg f ANil = Inr f"
  "Kind (typeOf (cur (value' f))) \<noteq> KPtr \<Longrightarrow> setFieldData X cfg f (AStr []) = Inr f"
  by (simp_all add: setFieldData.simps unwrap_non_pointer setValue_same)

lemma setFieldData_string:
  assumes "cur (value' f) = VString old" "s \<noteq> []"
  shows "setFieldData X cfg f (AStr s) = Inr (Set f (VString s))"
proof -
  have "unwrap (value' f) = value' f" by (rule unwrap_non_pointer) (simp add: assms)
  then show ?thesis using assms
    by (simp add: setFieldData.simps setValue_same Let_def setString_def Sprint_def)
qed



text \<open>
  C7. Coercing a nil source value or the empty string into a cell that is not a pointer
  succeeds and returns the descriptor as it was: the cell keeps its value.
\<close>

theorem setFieldData_nil_or_empty:
  assumes "Kind (typeOf (cur (value' f))) \<noteq> KPtr"
  shows "setFieldData X cfg f ANil = Inr f \<and> setFieldData X cfg f (AStr []) = Inr f"
  using assms setFieldData_absent by simp

lemma checkRequired_fields_eq:
  "checkRequired_fields cfg fs acc =
     acc @ map name (filter (\<lambda>f. \<not> isSet f \<and> (isRequired f \<or> AllFieldRequired cfg)) fs)"
  by (induction fs arbitrary: acc) auto

lemma checkRequired_eq:
  "checkRequired l =
     (let missed = map name (filter (\<lambda>f. \<not> isSet f \<and> (isRequired f \<or> AllFieldRequired (config l))) (fields' l))
      in if missed = [] then None else Some (RequiredNotSet (Join missed '','')))"
  by (simp add: checkRequired_def checkRequired_fields_eq Let_def)

lemma loadSources_error: "loadSources X l = Inl e \<Longrightarrow> \<exists>p e'. e = Wrap p e'"
  by (auto simp: loadSources_def split: if_splits sum.splits)

lemma parseFlags_error: "parseFlags X l = Inl e \<Longrightarrow> \<exists>m. e = External m"
  by (auto simp: parseFlags_def split: if_splits sum.splits)

text \<open>
  C2. \<^verbatim>\<open>Load\<close> fails with the error of the missing required fields exactly when the
  loader was initialised without error, the flags were parsed and the source passes ran
  without error, and after them some descriptor has \<open>isSet\<close> false and is marked
  required or covered by \<open>AllFieldRequired\<close>; the one error then carries the names of
  all these descriptors, in the order of the fields, joined by commas.
\<close>

theorem Load_required_not_set:
  "Load X l = Inl (Wrap ''load config'' (RequiredNotSet s)) \<longleftrightarrow>
     errInit l = None \<and>
     (\<exists>l1 l2. parseFlags X l = Inr l1 \<and> loadSources X l1 = Inr l2 \<and>
        (\<exists>f \<in> set (fields' l2). \<not> isSet f \<and> (isRequired f \<or> AllFieldRequired (config l2))) \<and>
        s = Join (map name (filter (\<lambda>f. \<not> isSet f \<and> (isRequired f \<or> AllFieldRequired (config l2)))
                              (fields' l2))) '','')"
  (is "?L \<longleftrightarrow> ?R")
proof
  assume L: ?L
  then have ei: "errInit l = None" by (auto simp: Load_def split: option.splits)
  with L have lc: "loadConfig X l = Inl (RequiredNotSet s)"
    by (auto simp: Load_def split: sum.splits)
  then obtain l1 where l1: "parseFlags X l = Inr l1"
    using parseFlags_error[of X l] by (cases "parseFlags X l") (auto simp: loadConfig_def)
  with lc obtain l2 where l2: "loadSources X l1 = Inr l2"
    using loadSources_error[of X l1] by (cases "loadSources X l1") (auto simp: loadConfig_def)
  with lc l1 have "checkRequired l2 = Some (RequiredNotSet s)"
    by (auto simp: loadConfig_def split: option.splits)
  then have "filter (\<lambda>f. \<not> isSet f \<and> (isRequired f \<or> AllFieldRequired (config l2))) (fields' l2) \<noteq> []"
    and "s = Join (map name (filter (\<lambda>f. \<not> isSet f \<and> (isRequired f \<or> AllFieldRequired (config l2)))
                              (fields' l2))) '',''"
    by (auto simp: checkRequired_eq Let_def split: if_splits)
  then show ?R using ei l1 l2 by (auto simp: filter_empty_conv)
next
  assume R: ?R
  then obtain l1 l2 where "errInit l = None" "parseFlags X l = Inr l1" "loadSources X l1 = Inr l2"
    and ex: "\<exists>f \<in> set (fields' l2). \<not> isSet f \<and> (isRequired f \<or> AllFieldRequired (config l2))"
    and s: "s = Join (map name (filter (\<lambda>f. \<not> isSet f \<and> (isRequired f \<or> AllFieldRequired (config l2)))
                              (fields' l2))) '',''"
    by blast
  moreover from ex have "filter (\<lambda>f. \<not> isSet f \<and> (isRequired f \<or> AllFieldRequired (config l2))) (fields' l2) \<noteq> []"
    by (auto simp: filter_empty_conv)
  ultimately show ?L
    by (simp add: Load_def loadConfig_def checkRequired_eq Let_def)
qed

lemmas ex_defs = ex_loader_def ex_config_def ex_flagSet_def ex_host_def ex_inner_def ex_db_def
  ex_abs_def ex_required_def ex_field_def ex_externals_def ex_getEnv_def

lemma ex_loadSources:
  "loadSources ex_externals ex_loader =
     Inr (ex_loader\<lparr>fields' := [setIsSet (Set ex_host (VString ''h'')) True,
        ex_required ''Port'' ''PORT'' ''port'', ex_required ''Name'' ''NAME'' ''name'']\<rparr>)"
  by (simp add: loadSources_def loadDefaults_def loadFiles_def loadEnvironment_def loadFlags_def
      setField_def postEnvCheck_def postFlagCheck_def setFieldData.simps unwrap.simps
      fullTag_def Tag_of_def Let_def ex_defs handle_def setValue_def setIsSet_def Set_def
      setString_def Sprint_def HasPrefix_def zeroStructField_def)

theorem Load_required_not_set_witness:
  "Load ex_externals ex_loader = Inl (Wrap ''load config'' (RequiredNotSet ''Port,Name''))"
proof -
  have p: "parseFlags ex_externals ex_loader = Inr ex_loader"
    by (simp add: parseFlags_def ex_loader_def ex_flagSet_def)
  have e: "errInit ex_loader = None" by (simp add: ex_loader_def)
  show ?thesis
    using Load_required_not_set[of ex_externals ex_loader "''Port,Name''"] p e ex_loadSources
    by (simp add: ex_required_def ex_host_def ex_field_def setIsSet_def Set_def ex_loader_def
        ex_config_def)
qed

theorem setFieldData_nil_or_empty_witness:
  "Kind (typeOf (cur (value' ex_host))) \<noteq> KPtr
   \<and> setFieldData ex_externals ex_config ex_host ANil = Inr ex_host
   \<and> setFieldData ex_externals ex_config ex_host (AStr []) = Inr ex_host"
proof -
  have h: "Kind (typeOf (cur (value' ex_host))) \<noteq> KPtr"
    by (simp add: ex_host_def ex_field_def handle_def)
  show ?thesis
    using h setFieldData_nil_or_empty[OF h, of ex_externals ex_config] by simp
qed

section \<open>The schema walk\<close>









section \<open>Dynamic assignment of maps to structs; delimiters\<close>

lemma map_fst_update_same: "map fst (ms[i := (fst (ms ! i), y)]) = map fst ms"
  by (induction ms arbitrary: i) (auto split: nat.split)

lemma map_fst_SetByIndex: "map fst (SetByIndex ms i r x) = map fst ms"
  by (cases r) (simp_all add: map_fst_update_same split: sum.split)

lemma indexOfName_None: "indexOfName ds n = None \<longleftrightarrow> (\<forall>d\<in>set ds. mName d \<noteq> n)"
  by (induction ds) auto

lemma indexOfName_first:
  "i < length ds \<Longrightarrow> mName (ds ! i) = n \<Longrightarrow> (\<forall>j<i. mName (ds ! j) \<noteq> n)
   \<Longrightarrow> indexOfName ds n = Some i"
proof (induction ds arbitrary: i)
  case Nil
  then show ?case by simp
next
  case (Cons d ds)
  show ?case
  proof (cases i)
    case 0
    then show ?thesis using Cons.prems by simp
  next
    case (Suc i')
    have d: "mName d \<noteq> n" using Cons.prems(3) Suc by auto
    have "\<forall>j<i'. mName (ds ! j) \<noteq> n" using Cons.prems(3) Suc by auto
    then have "indexOfName ds n = Some i'" using Cons.IH[of i'] Cons.prems(1,2) Suc by simp
    then show ?thesis using d Suc by simp
  qed
qed

lemma m2s_unmatched_fails:
  "(k, v) \<in> set es \<Longrightarrow> FieldByName X (map fst ms) (Title X k) = None
   \<Longrightarrow> \<exists>e. m2s X cfg es ms = Inl e"
proof (induction es arbitrary: ms)
  case Nil
  then show ?case by simp
next
  case (Cons a es)
  obtain k0 v0 where a: "a = (k0, v0)" by (cases a)
  show ?case
  proof (cases "FieldByName X (map fst ms) (Title X k0)")
    case None
    then show ?thesis unfolding a by (simp add: Let_def)
  next
    case (Some ir)
    then have "k \<noteq> k0" using Cons.prems(2) by auto
    then have mem: "(k, v) \<in> set es" using Cons.prems(1) a by simp
    have "\<And>i r x. FieldByName X (map fst (SetByIndex ms i r x)) (Title X k) = None"
      using Cons.prems(2) by (simp add: map_fst_SetByIndex)
    then have "\<And>i r x. \<exists>e. m2s X cfg es (SetByIndex ms i r x) = Inl e"
      using Cons.IH[OF mem] by blast
    then show ?thesis unfolding a
      by (auto simp: Let_def split: option.splits sum.splits prod.splits)
  qed
qed

text \<open>
  C8, as amended. In \<^verbatim>\<open>m2s\<close> the key of an entry is normalised by
  \<^verbatim>\<open>strings.Title\<close> (the first letter of each word upper-cased, the other letters
  as they are) and looked up with \<^verbatim>\<open>FieldByName\<close> of \<^verbatim>\<open>reflect\<close>, which compares
  names exactly.
  \<^item> An entry whose normalised key the lookup does not find gives the error "no such
    field" with the normalised key when the loop reaches it, and makes \<^verbatim>\<open>m2s\<close> fail
    wherever it stands in the map.
  \<^item> The lookup of a non-empty name finds the first member the record declares under
    exactly that name; it finds nothing if no member has the name and none is
    embedded; if no member has the name and one is embedded, it is the search of
    \<^verbatim>\<open>reflect\<close> for a field promoted from the embedded structs.
  \<^item> An entry whose normalised key is found, at an exported member that can be
    reached, is coerced into the cell of that member, of the record itself or of the
    embedded struct that declares it, and the loop goes on.
  \<^item> On ASCII text the normalisation upper-cases the first character and goes on with
    \<open>Title_from\<close>.
\<close>

theorem m2s_title_exact_match:
  "(FieldByName X (map fst ms) (Title X k) = None
      \<longrightarrow> m2s X cfg ((k, v) # rest) ms = Inl (NoSuchField (Title X k)))
   \<and> ((k, v) \<in> set es \<and> FieldByName X (map fst ms) (Title X k) = None
      \<longrightarrow> (\<exists>e. m2s X cfg es ms = Inl e))
   \<and> (n \<noteq> [] \<and> j < length ds \<and> mName (ds ! j) = n \<and> (\<forall>j'<j. mName (ds ! j') \<noteq> n)
      \<longrightarrow> FieldByName X ds n = Some (j, []))
   \<and> ((\<forall>d\<in>set ds. mName d \<noteq> n \<and> \<not> mAnonymous d) \<longrightarrow> FieldByName X ds n = None)
   \<and> (n \<noteq> [] \<and> (\<forall>d\<in>set ds. mName d \<noteq> n) \<and> (\<exists>d\<in>set ds. mAnonymous d)
      \<longrightarrow> FieldByName X ds n = FieldByNameFunc X ds n)
   \<and> (FieldByName X (map fst ms) (Title X k) = Some (i, r) \<and> FieldByIndex ms i r = Inr (m, mv)
        \<and> exported X (mName m)
        \<and> newFieldData X cfg (StructField_of m) (handle mv) None = Inr fd
        \<and> setFieldData X cfg fd v = Inr fd'
      \<longrightarrow> m2s X cfg ((k, v) # rest) ms
          = m2s X cfg rest (SetByIndex ms i r (cell (value' fd'))))
   \<and> (ascii (c # s) \<longrightarrow> Title X (c # s) = ToUpper_char c # Title_from c s)"
proof -
  have 1: "FieldByName X (map fst ms) (Title X k) = None
      \<longrightarrow> m2s X cfg ((k, v) # rest) ms = Inl (NoSuchField (Title X k))"
    by (simp add: Let_def)
  have 2: "(k, v) \<in> set es \<and> FieldByName X (map fst ms) (Title X k) = None
      \<longrightarrow> (\<exists>e. m2s X cfg es ms = Inl e)"
    using m2s_unmatched_fails[of k v es X ms cfg] by blast
  have 3: "n \<noteq> [] \<and> j < length ds \<and> mName (ds ! j) = n \<and> (\<forall>j'<j. mName (ds ! j') \<noteq> n)
      \<longrightarrow> FieldByName X ds n = Some (j, [])"
    using indexOfName_first[of j ds n] by (simp add: FieldByName_def)
  have 4: "(\<forall>d\<in>set ds. mName d \<noteq> n \<and> \<not> mAnonymous d) \<longrightarrow> FieldByName X ds n = None"
    using indexOfName_None[of ds n] by (auto simp: FieldByName_def list_ex_iff)
  have 5: "n \<noteq> [] \<and> (\<forall>d\<in>set ds. mName d \<noteq> n) \<and> (\<exists>d\<in>set ds. mAnonymous d)
      \<longrightarrow> FieldByName X ds n = FieldByNameFunc X ds n"
    using indexOfName_None[of ds n] by (auto simp: FieldByName_def list_ex_iff)
  have 6: "FieldByName X (map fst ms) (Title X k) = Some (i, r) \<and> FieldByIndex ms i r = Inr (m, mv)
        \<and> exported X (mName m)
        \<and> newFieldData X cfg (StructField_of m) (handle mv) None = Inr fd
        \<and> setFieldData X cfg fd v = Inr fd'
      \<longrightarrow> m2s X cfg ((k, v) # rest) ms
          = m2s X cfg rest (SetByIndex ms i r (cell (value' fd')))"
    by (simp add: Let_def)
  have 7: "ascii (c # s) \<longrightarrow> Title X (c # s) = ToUpper_char c # Title_from c s"
    by (simp add: Title_def isSeparator_def lower_letters_def upper_letters_def)
  show ?thesis using 1 2 3 4 5 6 7 by blast
qed

text \<open>
  C8 as stated fails: the key \<open>foobar\<close> equals the member name \<open>FooBar\<close> up to
  case, and \<^verbatim>\<open>m2s\<close> reports that there is no such field.
\<close>

theorem m2s_case_insensitive_counterexample:
  "ToLower ex_externals ''foobar'' = ToLower ex_externals (mName ex_fooBar)
   \<and> m2s ex_externals ex_config [(''foobar'', AStr ''x'')] [(ex_fooBar, VString [])] =
       Inl (NoSuchField ''Foobar'')"
  by (simp add: ex_fooBar_def ToLower_def ascii_def ToLower_char_def upper_letters_def
      lower_letters_def Title_def isSeparator_def ToUpper_char_def FieldByName_def Let_def)

theorem m2s_title_exact_match_witness:
  "m2s ex_externals ex_config [(''foobar'', AStr ''x'')] [(ex_fooBar, VString [])] =
       Inl (NoSuchField ''Foobar'')
   \<and> (\<exists>e. m2s ex_externals ex_config [(''fooBar'', AStr ''x''), (''foobar'', AStr ''y'')]
         [(ex_fooBar, VString [])] = Inl e)
   \<and> m2s ex_externals ex_config [(''fooBar'', AStr ''x'')] [(ex_fooBar, VString [])] =
       Inr [(ex_fooBar, VString ''x'')]
   \<and> FieldByName ex_externals [ex_eMember, ex_yMember] ''X'' = Some (0, [0])
   \<and> m2s ex_externals ex_config [(''x'', AStr ''v'')]
        [(ex_eMember, VStruct [(ex_xMember, VString [])]), (ex_yMember, VString [])] =
       Inr [(ex_eMember, VStruct [(ex_xMember, VString ''v'')]), (ex_yMember, VString [])]
   \<and> m2s ex_externals ex_config [([CHR 0xC3, CHR 0xA9, CHR ''l'', CHR ''a'', CHR ''n''], AStr ''v'')]
        [(ex_elan, VString [])] =
       Inr [(ex_elan, VString ''v'')]
   \<and> Title ex_externals ''fooBar'' = ''FooBar''"
proof -
  let ?X = ex_externals
  let ?ms = "[(ex_fooBar, VString [])]"
  let ?es = "[(ex_eMember, VStruct [(ex_xMember, VString [])]), (ex_yMember, VString [])]"
  let ?elan = "[CHR 0xC3, CHR 0xA9, CHR ''l'', CHR ''a'', CHR ''n'']"
  have t: "Title ?X ''foobar'' = ''Foobar''" "Title ?X ''fooBar'' = ''FooBar''"
    "Title ?X ''x'' = ''X''"
    by (simp_all add: Title_def ascii_def isSeparator_def ToUpper_char_def upper_letters_def
        lower_letters_def)
  have te: "Title ?X ?elan = mName ex_elan"
    by (simp add: Title_def ascii_def ex_externals_def ex_latinToUpper_def ex_latin_lower_def ex_latin_upper_def isSeparator_def ToUpper_char_def upper_letters_def lower_letters_def ex_elan_def)
  have n: "FieldByName ?X (map fst ?ms) ''Foobar'' = None"
    by (simp add: FieldByName_def ex_fooBar_def)
  have f: "FieldByName ?X (map fst ?ms) ''FooBar'' = Some (0, [])"
    "FieldByIndex ?ms 0 [] = Inr (ex_fooBar, VString [])"
    by (simp_all add: FieldByName_def ex_fooBar_def)
  have p: "FieldByName ?X (map fst ?es) ''X'' = Some (0, [0])"
    "FieldByIndex ?es 0 [0] = Inr (ex_xMember, VString [])"
    by (simp_all add: FieldByName_def ex_eMember_def ex_yMember_def ex_xMember_def
        ex_externals_def ex_FieldByNameFunc_def ex_embedded_def embedded_def)
  have l: "FieldByName ?X (map fst [(ex_elan, VString [])]) (mName ex_elan) = Some (0, [])"
    "FieldByIndex [(ex_elan, VString [])] 0 [] = Inr (ex_elan, VString [])"
    by (simp_all add: FieldByName_def ex_elan_def)
  have e: "exported ?X (mName ex_fooBar)" "exported ?X (mName ex_xMember)"
    "exported ?X (mName ex_elan)"
    by (simp_all add: ex_fooBar_def ex_xMember_def ex_elan_def exported_def upper_letters_def
        ex_externals_def ex_isExported_def ex_latin_upper_def)
  have fd: "\<exists>fd. newFieldData ?X ex_config (StructField_of m) (handle (VString [])) None = Inr fd
      \<and> setFieldData ?X ex_config fd (AStr s) = Inr (Set fd (VString s))
      \<and> cell (value' (Set fd (VString s))) = VString s"
    if "mTag m = []" "s \<noteq> []" for m s
  proof -
    have "\<exists>fd. newFieldData ?X ex_config (StructField_of m) (handle (VString [])) None = Inr fd"
      by (simp add: newFieldData_def Let_def StructField_of_def Get_def that(1))
    then obtain fd where
      fd: "newFieldData ?X ex_config (StructField_of m) (handle (VString [])) None = Inr fd" ..
    then have v: "value' fd = handle (VString [])" using newFieldData_Inr by blast
    have "setFieldData ?X ex_config fd (AStr s) = Inr (Set fd (VString s))"
      using v that(2) by (intro setFieldData_string[of _ "[]"]) (simp_all add: handle_def)
    moreover have "cell (value' (Set fd (VString s))) = VString s"
      using v by (simp add: Set_def cell_def handle_def)
    ultimately show ?thesis using fd by blast
  qed
  from fd[of ex_fooBar "''x''"] obtain fd1 where fd1:
    "newFieldData ?X ex_config (StructField_of ex_fooBar) (handle (VString [])) None = Inr fd1"
    "setFieldData ?X ex_config fd1 (AStr ''x'') = Inr (Set fd1 (VString ''x''))"
    "cell (value' (Set fd1 (VString ''x''))) = VString ''x''"
    by (auto simp: ex_fooBar_def)
  from fd[of ex_xMember "''v''"] obtain fd2 where fd2:
    "newFieldData ?X ex_config (StructField_of ex_xMember) (handle (VString [])) None = Inr fd2"
    "setFieldData ?X ex_config fd2 (AStr ''v'') = Inr (Set fd2 (VString ''v''))"
    "cell (value' (Set fd2 (VString ''v''))) = VString ''v''"
    by (auto simp: ex_xMember_def)
  from fd[of ex_elan "''v''"] obtain fd3 where fd3:
    "newFieldData ?X ex_config (StructField_of ex_elan) (handle (VString [])) None = Inr fd3"
    "setFieldData ?X ex_config fd3 (AStr ''v'') = Inr (Set fd3 (VString ''v''))"
    "cell (value' (Set fd3 (VString ''v''))) = VString ''v''"
    by (auto simp: ex_elan_def)
  have 1: "m2s ?X ex_config [(''foobar'', AStr ''x'')] ?ms = Inl (NoSuchField ''Foobar'')"
    using m2s_title_exact_match[where X="?X" and ms="?ms" and k="''foobar''" and cfg=ex_config
        and v="AStr ''x''" and rest="[]"] t n
    by simp
  have 2: "\<exists>e. m2s ?X ex_config [(''fooBar'', AStr ''x''), (''foobar'', AStr ''y'')] ?ms = Inl e"
    using m2s_title_exact_match[where X="?X" and ms="?ms" and k="''foobar''" and cfg=ex_config
        and v="AStr ''y''" and es="[(''fooBar'', AStr ''x''), (''foobar'', AStr ''y'')]"] t n
    by simp
  have 3: "m2s ?X ex_config [(''fooBar'', AStr ''x'')] ?ms = Inr [(ex_fooBar, VString ''x'')]"
    using m2s_title_exact_match[where X="?X" and ms="?ms" and k="''fooBar''" and cfg=ex_config
        and v="AStr ''x''" and rest="[]" and i=0 and r="[]" and m=ex_fooBar and mv="VString []"
        and fd=fd1 and fd'="Set fd1 (VString ''x'')"] t f e fd1
    by simp
  have 4: "m2s ?X ex_config [(''x'', AStr ''v'')] ?es =
       Inr [(ex_eMember, VStruct [(ex_xMember, VString ''v'')]), (ex_yMember, VString [])]"
    using m2s_title_exact_match[where X="?X" and ms="?es" and k="''x''" and cfg=ex_config
        and v="AStr ''v''" and rest="[]" and i=0 and r="[0]" and m=ex_xMember and mv="VString []"
        and fd=fd2 and fd'="Set fd2 (VString ''v'')"] t p e fd2
    by (simp add: embedded_def)
  have 5: "m2s ?X ex_config [(?elan, AStr ''v'')] [(ex_elan, VString [])] = Inr [(ex_elan, VString ''v'')]"
    using m2s_title_exact_match[where X="?X" and ms="[(ex_elan, VString [])]" and k="?elan"
        and cfg=ex_config and v="AStr ''v''" and rest="[]" and i=0 and r="[]" and m=ex_elan
        and mv="VString []" and fd=fd3 and fd'="Set fd3 (VString ''v'')"] te l e fd3
    by simp
  show ?thesis using 1 2 3 4 5 p(1) t(2) by simp
qed

lemma init_config_delimiters:
  "envDelimiter (init_config X c) = ''_''"
  "FlagDelimiter (init_config X c) = (if FlagDelimiter c = [] then ''.'' else FlagDelimiter c)"
  by (simp_all add: init_config_def Let_def)

lemma init_delimiters:
  assumes "init X l = Inr l'"
  shows "envDelimiter (config l') = ''_''"
    and "FlagDelimiter (config l') = (if FlagDelimiter (config l) = [] then ''.'' else FlagDelimiter (config l))"
  using assms init_config_delimiters[of X "config l"]
  by (auto simp: init_def Let_def split: sum.splits prod.splits option.splits if_splits)

text \<open>
  C3, as amended. After \<^verbatim>\<open>init\<close>, the key of a field whose declaration is neither
  excluded nor marked is the prefix, the segments of the parent chain and the
  declaration, the segments joined with \<open>_\<close> in the environment namespace, with
  \<open>FlagDelimiter\<close> (\<open>.\<close> when unset) in the flag namespace, and with \<open>.\<close> in every
  other namespace, the file formats among them.
\<close>

theorem fullTag_delimiters:
  assumes "init X l = Inr l'"
    and "Tag_of f tag \<noteq> ''-''"
    and "\<not> (\<exists>u v. Tag_of f tag = u @ '',exact'' @ v)"
    and "\<not> (\<exists>u v. Tag_of f tag = u @ '',omitempty'' @ v)"
  shows "fullTag (config l') pfx f tag =
     pfx @ segments (ancestors (parent f)) tag
       (if tag = ''env'' then ''_''
        else if tag = ''flag''
             then (if FlagDelimiter (config l) = [] then ''.'' else FlagDelimiter (config l))
             else ''.'') @ Tag_of f tag"
  using fullTag_plain[OF assms(2,3,4), of "config l'" pfx] init_delimiters[OF assms(1)]
  by simp

text \<open>
  C3 as stated fails: with \<open>FlagDelimiter\<close> set to \<open>-\<close>, the key of a nested field
  in the namespace of the registered JSON decoder is still joined with \<open>.\<close>.
\<close>

theorem fullTag_file_delimiter_counterexample:
  "FlagDelimiter (init_config ex_externals ex_config0) = ''-''
   \<and> map_of (FileDecoders (init_config ex_externals ex_config0)) ''.json'' = Some (jsonDecoder ex_externals)
   \<and> Format (jsonDecoder ex_externals) = ''json''
   \<and> ancestors (parent ex_host) = [ex_inner, ex_db]
   \<and> fullTag (init_config ex_externals ex_config0) [] ex_host ''json'' = ''db.host''"
  by (simp add: init_config_def ex_config0_def ex_config_def ex_externals_def Let_def
      ex_host_def ex_inner_def ex_db_def ex_field_def fullTag_def Tag_of_def)

theorem fullTag_delimiters_witness:
  "\<exists>l'. init ex_externals ex_loader0 = Inr l'
     \<and> fullTag (config l') ''APP_'' ex_host ''env'' = ''APP_DB_HOST''
     \<and> fullTag (config l') ''app-'' ex_host ''flag'' = ''app-db-host''
     \<and> fullTag (config l') [] ex_host ''json'' = ''db.host''"
proof -
  obtain l' where i: "init ex_externals ex_loader0 = Inr l'"
    by (simp add: init_def ex_loader0_def getFields_def Let_def ex_config0_def ex_config_def
        init_config_def NewFlagSet_def)
  have b: "Tag_of ex_host ''env'' \<noteq> ''-''" "Tag_of ex_host ''flag'' \<noteq> ''-''"
    "Tag_of ex_host ''json'' \<noteq> ''-''"
    "\<not> (\<exists>u v. Tag_of ex_host ''env'' = u @ '',exact'' @ v)"
    "\<not> (\<exists>u v. Tag_of ex_host ''env'' = u @ '',omitempty'' @ v)"
    "\<not> (\<exists>u v. Tag_of ex_host ''flag'' = u @ '',exact'' @ v)"
    "\<not> (\<exists>u v. Tag_of ex_host ''flag'' = u @ '',omitempty'' @ v)"
    "\<not> (\<exists>u v. Tag_of ex_host ''json'' = u @ '',exact'' @ v)"
    "\<not> (\<exists>u v. Tag_of ex_host ''json'' = u @ '',omitempty'' @ v)"
    using no_comma_no_occurrence[of "''HOST''"] no_comma_no_occurrence[of "''host''"]
    by (simp_all add: Tag_of_def ex_host_def ex_field_def)
  have anc: "ancestors (parent ex_host) = [ex_inner, ex_db]"
    by (simp add: ex_host_def ex_inner_def ex_db_def ex_field_def)
  have seg: "segments [ex_inner, ex_db] ''env'' ''_'' = ''DB_''"
    "segments [ex_inner, ex_db] ''flag'' ''-'' = ''db-''"
    "segments [ex_inner, ex_db] ''json'' ''.'' = ''db.''"
    by (simp_all add: segments_def Tag_of_def ex_inner_def ex_db_def ex_field_def)
  have d: "FlagDelimiter (config ex_loader0) = ''-''"
    by (simp add: ex_loader0_def ex_config0_def)
  have "fullTag (config l') ''APP_'' ex_host ''env'' = ''APP_DB_HOST''
     \<and> fullTag (config l') ''app-'' ex_host ''flag'' = ''app-db-host''
     \<and> fullTag (config l') [] ex_host ''json'' = ''db.host''"
    using fullTag_delimiters[OF i b(1) b(4) b(5), of "''APP_''"]
      fullTag_delimiters[OF i b(2) b(6) b(7), of "''app-''"]
      fullTag_delimiters[OF i b(3) b(8) b(9), of "[]"] anc seg d
    by (simp add: Tag_of_def ex_host_def ex_field_def)
  with i show ?thesis by blast
qed

section \<open>The environment and flag passes\<close>










lemma ex_dup_keys:
  "envKey ex_dup ex_a = ''APP_SAME''" "envKey ex_dup ex_b = ''APP_SAME''"
  "flagKey ex_dup ex_a = ''app-same''" "flagKey ex_dup ex_b = ''app-same''"
  by (simp_all add: ex_dup_def ex_config_def ex_a_def ex_b_def ex_field_def fullTag_def Tag_of_def)






lemma fullTag_SliceSeparator [simp]:
  "fullTag (cfg\<lparr>SliceSeparator := s\<rparr>) pfx f tag = fullTag cfg pfx f tag"
  by (simp add: fullTag_def Let_def)













text \<open>
  C6 on the code: with \<open>AllowDuplicates\<close> true, a prefix and the check for unknown
  variables enabled, the one variable of the environment is consumed by the field
  \<open>Foo\<close>, and the pass still reports it as unknown.
\<close>

theorem loadEnvironment_reports_consumed_key:
  "AllowDuplicates (config ex_allow) \<and> \<not> AllowUnknownEnvs (config ex_allow)
   \<and> EnvPrefix (config ex_allow) = ''APP_''
   \<and> actualEnvs ex_externals ex_allow = [(''APP_FOO'', AStr ''x'')]
   \<and> envKey ex_allow ex_foo = ''APP_FOO''
   \<and> setFields ex_externals (config ex_allow) (EnvPrefix (config ex_allow)) ''env'' (fields' ex_allow)
        (actualEnvs ex_externals ex_allow) [] =
      Inr ([setIsSet (Set ex_foo (VString ''x'')) True], [(''APP_FOO'', AStr ''x'')], [])
   \<and> loadEnvironment ex_externals ex_allow = Inl (UnknownEnv ''APP_FOO'')"
  by (simp add: loadEnvironment_def setField_def postEnvCheck_def setFieldData.simps unwrap.simps
      fullTag_def Tag_of_def Let_def ex_allow_def ex_config_def ex_foo_def ex_field_def
      ex_externals_def ex_getEnv_def handle_def setValue_def setIsSet_def Set_def
      setString_def Sprint_def HasPrefix_def)

end
